theory Spec2Isabelle
  imports Complex_Main "HOL-Library.Stream" "HOL-Library.FSet"
begin

section \<open>Data model (models.py)\<close>

text \<open>
  The Python modules are embedded function by function. Python floats are read as
  real numbers (\<open>real\<close>), Python ints as \<open>int\<close>, enums as datatypes and
  dataclasses as records. Several dataclasses share field names (\<open>node_id\<close>,
  \<open>start_time\<close>, \<open>success\<close>, ...); a record field is a global constant in HOL, so
  each field carries a short prefix naming its dataclass.
\<close>

datatype NodeId = EDGE1 | EDGE2 | CORE1 | CORE2 | CLOUD1

datatype FailureType = CRASH | OMISSION | BYZANTINE | NETWORK_PARTITION

datatype LoadBalancingStrategy = WEIGHTED_ROUND_ROBIN | LEAST_CONNECTIONS | RESOURCE_AWARE

text \<open>\<open>list(NodeId)\<close> and \<open>for node in NodeId\<close>: the members in definition order.\<close>

definition all_nodes :: "NodeId list" where
  "all_nodes = [EDGE1, EDGE2, CORE1, CORE2, CLOUD1]"

text \<open>\<open>node.value\<close>, the string of an enum member.\<close>

fun node_value :: "NodeId \<Rightarrow> string" where
  "node_value EDGE1 = ''EDGE1''"
| "node_value EDGE2 = ''EDGE2''"
| "node_value CORE1 = ''CORE1''"
| "node_value CORE2 = ''CORE2''"
| "node_value CLOUD1 = ''CLOUD1''"

record NodeMetrics =
  latency :: real
  throughput :: real
  packet_loss :: real
  cpu_utilization :: real
  memory_usage :: real
  transactions_per_sec :: int
  lock_contention :: real

record ServiceRequest =
  req_service_id :: string
  cpu_requirement :: real
  memory_requirement :: real
  transaction_load :: int
  priority :: int
  req_timestamp :: real

record FailureScenario =
  fs_node_id :: NodeId
  fs_failure_type :: FailureType
  fs_start_time :: real
  fs_duration :: real
  fs_severity :: real
  fs_recovery_time :: "real option"

record MigrationEvent =
  me_service_id :: string
  me_source_node :: NodeId
  me_destination_node :: NodeId
  me_start_time :: real
  me_completion_time :: "real option"
  me_success :: bool
  me_reason :: string

record LoadBalancingMetrics =
  cpu_distribution :: "NodeId \<Rightarrow> real"
  memory_distribution :: "NodeId \<Rightarrow> real"
  transaction_distribution :: "NodeId \<Rightarrow> int"
  load_balance_index :: real
  total_services :: int
  migrations :: int
  last_update_timestamp :: real

text \<open>
  \<open>service_allocations\<close> is a Python dict, iterated in insertion order by the
  migration and failover code: an association list. \<open>active_nodes\<close> and
  \<open>failed_nodes\<close> are Python sets. \<open>node_metrics\<close> is the dict handed in by the
  configuration, read both with \<open>[node]\<close> (KeyError when absent) and with
  \<open>.get(node)\<close>: a partial map. The three load dicts are created with a key for
  every node and never lose one: total functions.
\<close>

record SimulationState =
  current_time :: real
  active_nodes :: "NodeId set"
  failed_nodes :: "NodeId set"
  node_metrics :: "NodeId \<rightharpoonup> NodeMetrics"
  service_allocations :: "(string \<times> NodeId) list"
  active_failures :: "FailureScenario list"
  migration_history :: "MigrationEvent list"
  load_balancing_metrics :: LoadBalancingMetrics

text \<open>\<open>d[k] = v\<close> on an insertion-ordered dict: an existing key keeps its place.\<close>

fun dict_set :: "('k \<times> 'v) list \<Rightarrow> 'k \<Rightarrow> 'v \<Rightarrow> ('k \<times> 'v) list" where
  "dict_set [] k v = [(k, v)]"
| "dict_set ((k', v') # d) k v = (if k' = k then (k, v) # d else (k', v') # dict_set d k v)"

text \<open>The exceptions the modelled code can raise.\<close>

datatype py_error = KeyError | ZeroDivisionError

text \<open>
  Iterating a Python set of nodes visits them in an order fixed by the hash table,
  not by the program. The order is an input of every function that iterates a set:
  a list \<open>ord\<close> of nodes, of which the members of the set are visited in turn.
\<close>

definition iter_set :: "NodeId list \<Rightarrow> NodeId set \<Rightarrow> NodeId list" where
  "iter_set ord S = filter (\<lambda>n. n \<in> S) ord"

subsection \<open>The random source\<close>

text \<open>
  Every use of the \<open>random\<close> module draws from one stream of uniform samples of
  \<open>[0, 1)\<close>, passed in and returned with the used draws removed.
  \<open>random.uniform(a, b)\<close> is \<open>a + (b - a) * random()\<close>, as in the standard library;
  \<open>random.expovariate(lambd)\<close> is \<open>-ln(1 - random()) / lambd\<close>.
\<close>

type_synonym rng = "real stream"

definition rng_ok :: "rng \<Rightarrow> bool" where
  "rng_ok r = (\<forall>u \<in> sset r. 0 \<le> u \<and> u < 1)"

definition py_random :: "rng \<Rightarrow> real \<times> rng" where
  "py_random r = (shd r, stl r)"

definition py_uniform :: "real \<Rightarrow> real \<Rightarrow> rng \<Rightarrow> real \<times> rng" where
  "py_uniform a b r = (a + (b - a) * shd r, stl r)"

definition py_expovariate :: "real \<Rightarrow> rng \<Rightarrow> real \<times> rng" where
  "py_expovariate lambd r = (- ln (1 - shd r) / lambd, stl r)"

text \<open>
  \<open>randbelow n\<close>, an integer of \<open>[0, n)\<close>, taken from a uniform draw; the \<open>min\<close>
  keeps it below \<open>n\<close> on every stream.
\<close>

definition py_randbelow :: "nat \<Rightarrow> rng \<Rightarrow> nat \<times> rng" where
  "py_randbelow n r = (min (n - 1) (nat \<lfloor>shd r * real n\<rfloor>), stl r)"

text \<open>\<open>random.randint(a, b)\<close> is \<open>a + randbelow(b - a + 1)\<close>.\<close>

definition py_randint :: "nat \<Rightarrow> nat \<Rightarrow> rng \<Rightarrow> nat \<times> rng" where
  "py_randint a b r = (let (j, r') = py_randbelow (b - a + 1) r in (a + j, r'))"

text \<open>
  \<open>random.sample(population, k)\<close> for \<open>k \<le> len(population)\<close>: \<open>k\<close> elements at
  distinct positions, each drawn from the positions not yet taken.
  \<open>random.shuffle\<close> is the sample of full length.
\<close>

fun py_sample :: "'a list \<Rightarrow> nat \<Rightarrow> rng \<Rightarrow> 'a list \<times> rng" where
  "py_sample pool 0 r = ([], r)"
| "py_sample pool (Suc k) r =
     (if pool = [] then ([], r)
      else let (j, r1) = py_randbelow (length pool) r;
               (rest, r2) = py_sample (take j pool @ drop (Suc j) pool) k r1
           in (pool ! j # rest, r2))"

definition py_shuffle :: "'a list \<Rightarrow> rng \<Rightarrow> 'a list \<times> rng" where
  "py_shuffle xs r = py_sample xs (length xs) r"

section \<open>Redundancy and failover (redundancy_failover.py)\<close>

datatype RedundancyStrategy =
  ACTIVE_ACTIVE | ACTIVE_PASSIVE | N_WAY_REPLICATION | GEOGRAPHIC_REDUNDANCY

datatype FailoverMode = AUTOMATIC | SEMI_AUTOMATIC | MANUAL

record RiskAssessment =
  ra_node_id :: NodeId
  risk_score :: real
  ra_failure_type :: FailureType
  criticality_score :: real
  dependent_nodes :: "NodeId set"
  cascade_risk_score :: real
  mitigation_strategies :: "string set"

record ReplicationGroup =
  group_id :: string
  primary_node :: NodeId
  replica_nodes :: "NodeId set"
  rg_strategy :: RedundancyStrategy
  replication_factor :: nat
  consistency_level :: string

definition high_risk_threshold :: real where
  "high_risk_threshold = 7 / 10"

definition critical_risk_threshold :: real where
  "critical_risk_threshold = 85 / 100"

definition select_redundancy_strategy :: "RiskAssessment \<Rightarrow> RedundancyStrategy" where
  "select_redundancy_strategy risk =
     (if risk_score risk \<ge> critical_risk_threshold then
        (if ra_failure_type risk = BYZANTINE then N_WAY_REPLICATION else ACTIVE_ACTIVE)
      else if risk_score risk \<ge> high_risk_threshold then
        (if card (dependent_nodes risk) > 2 then ACTIVE_ACTIVE else ACTIVE_PASSIVE)
      else if risk_score risk \<ge> 5 / 10 then ACTIVE_PASSIVE
      else GEOGRAPHIC_REDUNDANCY)"

text \<open>\<open>int(x)\<close> on a float truncates towards zero.\<close>

definition py_int :: "real \<Rightarrow> int" where
  "py_int x = (if x \<ge> 0 then \<lfloor>x\<rfloor> else \<lceil>x\<rceil>)"

text \<open>\<open>str(n)\<close> for an integer, used in the identifiers built with f-strings.\<close>

fun py_str_nat :: "nat \<Rightarrow> string" where
  "py_str_nat n =
     (if n < 10 then [''0123456789'' ! n]
      else py_str_nat (n div 10) @ [''0123456789'' ! (n mod 10)])"

declare py_str_nat.simps [simp del]

definition py_str_int :: "int \<Rightarrow> string" where
  "py_str_int i = (if i < 0 then ''-'' @ py_str_nat (nat (- i)) else py_str_nat (nat i))"

record FailoverEvent =
  fe_event_id :: string
  fe_failed_node :: NodeId
  fe_failover_node :: NodeId
  fe_failover_mode :: FailoverMode
  fe_start_time :: real
  fe_completion_time :: "real option"
  fe_success :: bool
  services_migrated :: "string list"
  downtime_seconds :: real
  fe_reason :: string

text \<open>
  The fields of a \<open>RedundancyFailoverManager\<close> that the configuration and the
  single-node failover read or write: the dict of replication groups, in insertion
  order, and the failover history.
\<close>

record RedundancyFailoverManager =
  replication_groups :: "(string \<times> ReplicationGroup) list"
  failover_history :: "FailoverEvent list"

definition new_redundancy_manager :: RedundancyFailoverManager where
  "new_redundancy_manager = \<lparr>replication_groups = [], failover_history = []\<rparr>"

text \<open>The \<open>node_failure_types\<close> table of \<open>_select_replica_nodes\<close>.\<close>

fun node_failure_types :: "NodeId \<Rightarrow> FailureType" where
  "node_failure_types EDGE1 = CRASH"
| "node_failure_types EDGE2 = OMISSION"
| "node_failure_types CORE1 = BYZANTINE"
| "node_failure_types CORE2 = CRASH"
| "node_failure_types CLOUD1 = OMISSION"

definition select_replica_nodes ::
    "NodeId \<Rightarrow> FailureType \<Rightarrow> nat \<Rightarrow> rng \<Rightarrow> NodeId set \<times> rng" where
  "select_replica_nodes primary primary_failure_type count r =
     (let candidates =
            filter (\<lambda>node. node \<noteq> primary \<and> node_failure_types node \<noteq> primary_failure_type)
              all_nodes;
          candidates' =
            (if length candidates < count
             then candidates
                    @ filter (\<lambda>node. node \<noteq> primary \<and> node \<notin> set candidates) all_nodes
             else candidates);
          (selected, r') = py_sample candidates' (min count (length candidates')) r
      in (set selected, r'))"

definition create_replication_group_for_node ::
    "RedundancyFailoverManager \<Rightarrow> RiskAssessment \<Rightarrow> RedundancyStrategy \<Rightarrow> rng
       \<Rightarrow> RedundancyFailoverManager \<times> rng" where
  "create_replication_group_for_node mgr risk strategy r =
     (let factor =
            (if risk_score risk \<ge> critical_risk_threshold then 3
             else if risk_score risk \<ge> high_risk_threshold then 2
             else 1);
          (replicas, r') =
            select_replica_nodes (ra_node_id risk) (ra_failure_type risk) factor r;
          level =
            (if ra_failure_type risk = BYZANTINE then ''strong''
             else if ra_failure_type risk = OMISSION then ''causal''
             else ''eventual'');
          gid = ''replication_group_'' @ node_value (ra_node_id risk);
          replication_group =
            \<lparr>group_id = gid, primary_node = ra_node_id risk, replica_nodes = replicas,
             rg_strategy = strategy, replication_factor = factor, consistency_level = level\<rparr>
      in (mgr\<lparr>replication_groups := dict_set (replication_groups mgr) gid replication_group\<rparr>,
          r'))"

fun configure_redundancy_from_risk_assessment ::
    "RedundancyFailoverManager \<Rightarrow> RiskAssessment list \<Rightarrow> rng
       \<Rightarrow> (NodeId \<rightharpoonup> RedundancyStrategy) \<times> RedundancyFailoverManager \<times> rng" where
  "configure_redundancy_from_risk_assessment mgr [] r = (Map.empty, mgr, r)"
| "configure_redundancy_from_risk_assessment mgr (risk # risks) r =
     (let strategy = select_redundancy_strategy risk;
          (mgr1, r1) =
            (if risk_score risk \<ge> high_risk_threshold
             then create_replication_group_for_node mgr risk strategy r
             else (mgr, r));
          (config, mgr2, r2) = configure_redundancy_from_risk_assessment mgr1 risks r1
      in (\<lambda>node. case config node of
                   Some s \<Rightarrow> Some s
                 | None \<Rightarrow> if node = ra_node_id risk then Some strategy else None,
          mgr2, r2))"

definition group_has_node :: "NodeId \<Rightarrow> ReplicationGroup \<Rightarrow> bool" where
  "group_has_node node grp = (node = primary_node grp \<or> node \<in> replica_nodes grp)"

definition find_replication_group_for_node ::
    "RedundancyFailoverManager \<Rightarrow> NodeId \<Rightarrow> ReplicationGroup option" where
  "find_replication_group_for_node mgr node =
     find (group_has_node node) (map snd (replication_groups mgr))"

definition calculate_failover_target_score :: "NodeId \<Rightarrow> SimulationState \<Rightarrow> real" where
  "calculate_failover_target_score node st =
     (case node_metrics st node of
        None \<Rightarrow> 0
      | Some metrics \<Rightarrow>
          let cpu_score = 1 - cpu_utilization metrics / 72;
              memory_score = 1 - memory_usage metrics / 16;
              latency_score = 1 - latency metrics / 22;
              throughput_score = throughput metrics / 1250
          in cpu_score * (3 / 10) + memory_score * (3 / 10)
               + latency_score * (2 / 10) + throughput_score * (2 / 10))"

fun failover_target_loop ::
    "NodeId list \<Rightarrow> SimulationState \<Rightarrow> (real \<times> NodeId) option \<Rightarrow> NodeId option" where
  "failover_target_loop [] st best = map_option snd best"
| "failover_target_loop (replica # rs) st best =
     (let score = calculate_failover_target_score replica st
      in if (case best of None \<Rightarrow> True | Some (best_score, best_node) \<Rightarrow> score > best_score)
         then failover_target_loop rs st (Some (score, replica))
         else failover_target_loop rs st best)"

text \<open>
  \<open>_select_failover_target\<close>; \<open>ord\<close> is the order in which the set
  \<open>replica_nodes\<close> is iterated.
\<close>

definition select_failover_target ::
    "NodeId \<Rightarrow> ReplicationGroup \<Rightarrow> SimulationState \<Rightarrow> NodeId list \<Rightarrow> NodeId option" where
  "select_failover_target failed_node grp st ord =
     (let available_replicas =
            filter (\<lambda>node. node \<notin> failed_nodes st) (iter_set ord (replica_nodes grp))
      in if available_replicas = [] then None
         else failover_target_loop available_replicas st None)"

definition execute_failover :: "ReplicationGroup \<Rightarrow> rng \<Rightarrow> bool \<times> real \<times> rng" where
  "execute_failover grp r =
     (let (lo, hi, success_rate) =
            (case rg_strategy grp of
               ACTIVE_ACTIVE \<Rightarrow> (5 / 10, 2, 98 / 100)
             | ACTIVE_PASSIVE \<Rightarrow> (2, 10, 95 / 100)
             | N_WAY_REPLICATION \<Rightarrow> (5, 15, 92 / 100)
             | GEOGRAPHIC_REDUNDANCY \<Rightarrow> (10, 30, 90 / 100));
          (downtime, r1) = py_uniform lo hi r;
          (u, r2) = py_random r1
      in (u < success_rate, downtime, r2))"

text \<open>
  \<open>_migrate_services_during_failover\<close>: the loop rewrites the value of every
  entry allocated to the failed node, in place.
\<close>

definition migrate_services_during_failover ::
    "NodeId \<Rightarrow> NodeId \<Rightarrow> SimulationState \<Rightarrow> string list \<times> SimulationState" where
  "migrate_services_during_failover failed_node failover_node st =
     (map fst (filter (\<lambda>(service_id, allocated_node). allocated_node = failed_node)
                 (service_allocations st)),
      st\<lparr>service_allocations :=
           map (\<lambda>(service_id, allocated_node).
                  (service_id,
                   if allocated_node = failed_node then failover_node else allocated_node))
             (service_allocations st)\<rparr>)"

definition update_replication_group_after_failover ::
    "ReplicationGroup \<Rightarrow> NodeId \<Rightarrow> NodeId \<Rightarrow> ReplicationGroup" where
  "update_replication_group_after_failover grp failed_node failover_node =
     (if failed_node = primary_node grp
      then grp\<lparr>primary_node := failover_node,
               replica_nodes := insert failed_node (replica_nodes grp - {failover_node})\<rparr>
      else grp)"

text \<open>
  The group that \<open>_find_replication_group_for_node\<close> returned is an object of the
  dict and is changed in place: the first group of the dict that has the node.
\<close>

fun mutate_found_group ::
    "NodeId \<Rightarrow> (ReplicationGroup \<Rightarrow> ReplicationGroup) \<Rightarrow> (string \<times> ReplicationGroup) list
       \<Rightarrow> (string \<times> ReplicationGroup) list" where
  "mutate_found_group node f [] = []"
| "mutate_found_group node f ((k, grp) # gs) =
     (if group_has_node node grp then (k, f grp) # gs
      else (k, grp) # mutate_found_group node f gs)"

text \<open>
  \<open>implement_automated_failover\<close>, with its clock reading \<open>now\<close>. It returns the
  event (or \<open>None\<close>), the manager and the simulation state as it leaves them.
\<close>

definition implement_automated_failover ::
    "RedundancyFailoverManager \<Rightarrow> NodeId \<Rightarrow> SimulationState \<Rightarrow> FailoverMode \<Rightarrow> real
       \<Rightarrow> NodeId list \<Rightarrow> rng
       \<Rightarrow> FailoverEvent option \<times> RedundancyFailoverManager \<times> SimulationState \<times> rng" where
  "implement_automated_failover mgr failed_node st mode now ord r =
     (case find_replication_group_for_node mgr failed_node of
        None \<Rightarrow> (None, mgr, st, r)
      | Some grp \<Rightarrow>
          (case select_failover_target failed_node grp st ord of
             None \<Rightarrow> (None, mgr, st, r)
           | Some failover_node \<Rightarrow>
               let (success, downtime, r') = execute_failover grp r;
                   (migrated, st') =
                     migrate_services_during_failover failed_node failover_node st;
                   event =
                     \<lparr>fe_event_id =
                        ''failover_'' @ node_value failed_node @ ''_'' @ py_str_int (py_int now),
                      fe_failed_node = failed_node,
                      fe_failover_node = failover_node,
                      fe_failover_mode = mode,
                      fe_start_time = now,
                      fe_completion_time = Some (now + downtime),
                      fe_success = success,
                      services_migrated = migrated,
                      downtime_seconds = downtime,
                      fe_reason = ''Node '' @ node_value failed_node @ '' failure detected''\<rparr>;
                   groups' =
                     (if success
                      then mutate_found_group failed_node
                             (\<lambda>g. update_replication_group_after_failover g failed_node
                                    failover_node)
                             (replication_groups mgr)
                      else replication_groups mgr)
               in (Some event,
                   mgr\<lparr>replication_groups := groups',
                       failover_history := failover_history mgr @ [event]\<rparr>,
                   st', r')))"

section \<open>Failure injection (failure_injection.py)\<close>

record FailureProfile =
  fp_node_id :: NodeId
  fp_failure_type :: FailureType
  base_failure_rate :: real
  mean_duration :: real
  severity_range :: "real \<times> real"

text \<open>The \<open>failure_profiles\<close> dict of \<open>FailureInjector.__init__\<close>; it has every node.\<close>

fun failure_profiles :: "NodeId \<Rightarrow> FailureProfile" where
  "failure_profiles EDGE1 =
     \<lparr>fp_node_id = EDGE1, fp_failure_type = CRASH, base_failure_rate = 1 / 10,
      mean_duration = 30, severity_range = (8 / 10, 1)\<rparr>"
| "failure_profiles EDGE2 =
     \<lparr>fp_node_id = EDGE2, fp_failure_type = OMISSION, base_failure_rate = 15 / 100,
      mean_duration = 45, severity_range = (3 / 10, 7 / 10)\<rparr>"
| "failure_profiles CORE1 =
     \<lparr>fp_node_id = CORE1, fp_failure_type = BYZANTINE, base_failure_rate = 5 / 100,
      mean_duration = 120, severity_range = (9 / 10, 1)\<rparr>"
| "failure_profiles CORE2 =
     \<lparr>fp_node_id = CORE2, fp_failure_type = CRASH, base_failure_rate = 8 / 100,
      mean_duration = 25, severity_range = (7 / 10, 9 / 10)\<rparr>"
| "failure_profiles CLOUD1 =
     \<lparr>fp_node_id = CLOUD1, fp_failure_type = OMISSION, base_failure_rate = 12 / 100,
      mean_duration = 60, severity_range = (4 / 10, 8 / 10)\<rparr>"

text \<open>
  The mutable fields of a \<open>FailureInjector\<close>. The scenario objects of
  \<open>failure_history\<close> are the ones handed to the engine; the engine later stamps
  their \<open>recovery_time\<close>, which no function of the injector reads, so the history
  keeps the scenarios as created.
\<close>

record FailureInjector =
  failure_history :: "FailureScenario list"
  last_failure_times :: "NodeId \<rightharpoonup> real"

definition new_failure_injector :: FailureInjector where
  "new_failure_injector = \<lparr>failure_history = [], last_failure_times = Map.empty\<rparr>"

definition cascading_failure_probability :: real where
  "cascading_failure_probability = 2 / 10"

definition network_partition_probability :: real where
  "network_partition_probability = 5 / 100"

definition calculate_load_factor :: "NodeId \<Rightarrow> SimulationState \<Rightarrow> real" where
  "calculate_load_factor node st =
     (let metrics = load_balancing_metrics st;
          cpu_load = cpu_distribution metrics node;
          memory_load = memory_distribution metrics node;
          tx_load = transaction_distribution metrics node
      in case node_metrics st node of
           None \<Rightarrow> 0
         | Some nm \<Rightarrow>
             let cpu_ratio = (if cpu_utilization nm > 0 then cpu_load / cpu_utilization nm else 0);
                 memory_ratio = (if memory_usage nm > 0 then memory_load / memory_usage nm else 0);
                 transaction_ratio =
                   (if transactions_per_sec nm > 0
                    then real_of_int tx_load / real_of_int (transactions_per_sec nm) else 0);
                 load_factor = (cpu_ratio + memory_ratio + transaction_ratio) / 3
             in min 2 (max 0 load_factor))"

definition should_inject_failure ::
    "FailureInjector \<Rightarrow> NodeId \<Rightarrow> real \<Rightarrow> SimulationState \<Rightarrow> rng \<Rightarrow> bool \<times> rng" where
  "should_inject_failure fi node now st r =
     (let profile = failure_profiles node;
          base_prob_per_second = base_failure_rate profile / 3600;
          load_factor = calculate_load_factor node st;
          adjusted_prob = base_prob_per_second * (1 + load_factor);
          time_since_last_failure =
            now - (case last_failure_times fi node of None \<Rightarrow> 0 | Some t \<Rightarrow> t);
          adjusted_prob' =
            (if time_since_last_failure < 300
             then adjusted_prob * (time_since_last_failure / 300) else adjusted_prob);
          (u, r') = py_random r
      in (u < adjusted_prob', r'))"

definition create_failure_scenario :: "NodeId \<Rightarrow> real \<Rightarrow> rng \<Rightarrow> FailureScenario \<times> rng" where
  "create_failure_scenario node now r =
     (let profile = failure_profiles node;
          (d, r1) = py_expovariate (1 / mean_duration profile) r;
          duration = max 5 (min 600 d);
          (severity, r2) = py_uniform (fst (severity_range profile)) (snd (severity_range profile)) r1
      in (\<lparr>fs_node_id = node, fs_failure_type = fp_failure_type profile,
            fs_start_time = now, fs_duration = duration, fs_severity = severity,
            fs_recovery_time = None\<rparr>, r2))"

text \<open>The static dependency table of \<open>_get_dependent_nodes\<close>.\<close>

fun get_dependent_nodes :: "NodeId \<Rightarrow> NodeId list" where
  "get_dependent_nodes CORE1 = [EDGE1, EDGE2]"
| "get_dependent_nodes CORE2 = [EDGE1, EDGE2]"
| "get_dependent_nodes CLOUD1 = [CORE1, CORE2]"
| "get_dependent_nodes EDGE1 = []"
| "get_dependent_nodes EDGE2 = []"

text \<open>
  \<open>_evaluate_cascading_failures\<close>: the inner loop over the dependents of one
  trigger, then the outer loop over the triggers. \<open>initial\<close> is the whole list of
  initial failures, which the membership test of the inner loop reads.
\<close>

fun cascade_dependents ::
    "NodeId list \<Rightarrow> FailureScenario \<Rightarrow> FailureScenario list \<Rightarrow> real \<Rightarrow> SimulationState
       \<Rightarrow> rng \<Rightarrow> FailureScenario list \<times> rng" where
  "cascade_dependents [] failure initial now st r = ([], r)"
| "cascade_dependents (dependent_node # ds) failure initial now st r =
     (if dependent_node \<notin> failed_nodes st
         \<and> dependent_node \<notin> set (map fs_node_id initial)
      then
        let (start, r1) = py_uniform 5 30 r;
            cascading_failure =
              \<lparr>fs_node_id = dependent_node,
               fs_failure_type = fp_failure_type (failure_profiles dependent_node),
               fs_start_time = now + start,
               fs_duration = fs_duration failure * (7 / 10),
               fs_severity = fs_severity failure * (6 / 10),
               fs_recovery_time = None\<rparr>;
            (rest, r2) = cascade_dependents ds failure initial now st r1
        in (cascading_failure # rest, r2)
      else cascade_dependents ds failure initial now st r)"

fun cascade_triggers ::
    "FailureScenario list \<Rightarrow> FailureScenario list \<Rightarrow> real \<Rightarrow> SimulationState
       \<Rightarrow> rng \<Rightarrow> FailureScenario list \<times> rng" where
  "cascade_triggers [] initial now st r = ([], r)"
| "cascade_triggers (failure # fs) initial now st r =
     (let (u, r1) = py_random r
      in if u < cascading_failure_probability then
           let (cs, r2) =
                 cascade_dependents (get_dependent_nodes (fs_node_id failure))
                   failure initial now st r1;
               (rest, r3) = cascade_triggers fs initial now st r2
           in (cs @ rest, r3)
         else cascade_triggers fs initial now st r1)"

definition evaluate_cascading_failures ::
    "FailureScenario list \<Rightarrow> real \<Rightarrow> SimulationState \<Rightarrow> rng \<Rightarrow> FailureScenario list \<times> rng" where
  "evaluate_cascading_failures initial_failures now st r =
     cascade_triggers initial_failures initial_failures now st r"

definition create_network_partition ::
    "real \<Rightarrow> SimulationState \<Rightarrow> rng \<Rightarrow> FailureScenario list \<times> rng" where
  "create_network_partition now st r =
     (let (shuffled, r1) = py_shuffle all_nodes r;
          (partition_size, r2) = py_randint 1 (length shuffled - 1) r1;
          partitioned_nodes = take partition_size shuffled;
          (partition_duration, r3) = py_uniform 60 300 r2
      in (map (\<lambda>node.
                \<lparr>fs_node_id = node, fs_failure_type = NETWORK_PARTITION,
                 fs_start_time = now, fs_duration = partition_duration,
                 fs_severity = 5 / 10, fs_recovery_time = None\<rparr>)
            (filter (\<lambda>node. node \<notin> failed_nodes st) partitioned_nodes), r3))"

text \<open>The first loop of \<open>inject_failures\<close>, over the nodes in enum order.\<close>

fun inject_nodes ::
    "NodeId list \<Rightarrow> real \<Rightarrow> SimulationState \<Rightarrow> FailureInjector \<Rightarrow> rng
       \<Rightarrow> FailureScenario list \<times> FailureInjector \<times> rng" where
  "inject_nodes [] now st fi r = ([], fi, r)"
| "inject_nodes (node # ns) now st fi r =
     (if node \<in> failed_nodes st then inject_nodes ns now st fi r
      else
        let (inject, r1) = should_inject_failure fi node now st r
        in if inject then
             let (failure, r2) = create_failure_scenario node now r1;
                 fi' = fi\<lparr>failure_history := failure_history fi @ [failure],
                           last_failure_times := (last_failure_times fi)(node \<mapsto> now)\<rparr>;
                 (rest, fi'', r3) = inject_nodes ns now st fi' r2
             in (failure # rest, fi'', r3)
           else inject_nodes ns now st fi r1)"

definition inject_failures ::
    "FailureInjector \<Rightarrow> real \<Rightarrow> SimulationState \<Rightarrow> rng
       \<Rightarrow> FailureScenario list \<times> FailureInjector \<times> rng" where
  "inject_failures fi now st r =
     (let (new_failures, fi1, r1) = inject_nodes all_nodes now st fi r;
          (new_failures1, r2) =
            (if new_failures \<noteq> [] then
               let (cascading_failures, r') = evaluate_cascading_failures new_failures now st r1
               in (new_failures @ cascading_failures, r')
             else (new_failures, r1));
          (u, r3) = py_random r2;
          (new_failures2, r4) =
            (if u < network_partition_probability / 3600 then
               let (partition_failures, r') = create_network_partition now st r3
               in (new_failures1 @ partition_failures, r')
             else (new_failures1, r3))
      in (new_failures2, fi1, r4))"

definition inject_specific_failure ::
    "FailureInjector \<Rightarrow> NodeId \<Rightarrow> FailureType \<Rightarrow> real \<Rightarrow> real \<Rightarrow> real
       \<Rightarrow> FailureScenario \<times> FailureInjector" where
  "inject_specific_failure fi node ftype duration severity start_time =
     (let failure =
            \<lparr>fs_node_id = node, fs_failure_type = ftype, fs_start_time = start_time,
             fs_duration = duration, fs_severity = severity, fs_recovery_time = None\<rparr>
      in (failure,
          fi\<lparr>failure_history := failure_history fi @ [failure],
              last_failure_times := (last_failure_times fi)(node \<mapsto> start_time)\<rparr>))"

section \<open>Adaptive migration (adaptive_migration.py)\<close>

record MigrationDecision =
  md_service_id :: string
  md_source_node :: NodeId
  md_destination_node :: NodeId
  md_reason :: string
  md_priority :: real
  estimated_benefit :: real

text \<open>
  The mutable fields of an \<open>AdaptiveMigrationEngine\<close>. \<open>active_migrations\<close> is a
  Python set of service ids, whose size the code reads: a finite set.
  \<open>node_performance_history\<close> is a \<open>defaultdict(list)\<close>.
\<close>

record AdaptiveMigrationEngine =
  last_migration_times :: "string \<rightharpoonup> real"
  active_migrations :: "string fset"
  ame_migration_history :: "MigrationEvent list"
  node_performance_history :: "NodeId \<Rightarrow> (real \<times> real) list"
  load_imbalance_history :: "(real \<times> real) list"

definition new_migration_engine :: AdaptiveMigrationEngine where
  "new_migration_engine =
     \<lparr>last_migration_times = Map.empty, active_migrations = {||},
      ame_migration_history = [], node_performance_history = (\<lambda>node. []),
      load_imbalance_history = []\<rparr>"

definition migration_cooldown :: real where
  "migration_cooldown = 30"

definition max_concurrent_migrations :: nat where
  "max_concurrent_migrations = 3"

definition migration_success_rate :: real where
  "migration_success_rate = 95 / 100"

text \<open>\<open>_update_performance_history\<close>, with its own clock reading \<open>t\<close>.\<close>

definition update_performance_history ::
    "AdaptiveMigrationEngine \<Rightarrow> SimulationState \<Rightarrow> real \<Rightarrow> AdaptiveMigrationEngine" where
  "update_performance_history eng st t =
     eng\<lparr>node_performance_history :=
           (\<lambda>node. filter (\<lambda>(t', load). t' \<ge> t - 300)
              (node_performance_history eng node
                 @ [(t, cpu_distribution (load_balancing_metrics st) node)])),
         load_imbalance_history :=
           filter (\<lambda>(t', imbalance). t' \<ge> t - 300)
             (load_imbalance_history eng
                @ [(t, 1 - load_balance_index (load_balancing_metrics st))])\<rparr>"

definition is_overloaded :: "SimulationState \<Rightarrow> NodeId \<Rightarrow> bool" where
  "is_overloaded st node =
     (case node_metrics st node of
        None \<Rightarrow> False
      | Some nm \<Rightarrow>
          let current_cpu = cpu_distribution (load_balancing_metrics st) node;
              cpu_threshold = cpu_utilization nm * (8 / 10);
              current_memory = memory_distribution (load_balancing_metrics st) node;
              memory_threshold = memory_usage nm * (8 / 10);
              current_transactions = transaction_distribution (load_balancing_metrics st) node;
              transaction_threshold = real_of_int (transactions_per_sec nm) * (8 / 10)
          in current_cpu > cpu_threshold \<or> current_memory > memory_threshold
             \<or> real_of_int current_transactions > transaction_threshold)"

definition identify_overloaded_nodes :: "NodeId list \<Rightarrow> SimulationState \<Rightarrow> NodeId list" where
  "identify_overloaded_nodes ord st =
     filter (\<lambda>node. node \<notin> failed_nodes st \<and> is_overloaded st node)
       (iter_set ord (active_nodes st))"

definition is_underloaded :: "SimulationState \<Rightarrow> NodeId \<Rightarrow> bool" where
  "is_underloaded st node =
     (case node_metrics st node of
        None \<Rightarrow> False
      | Some nm \<Rightarrow>
          let current_cpu = cpu_distribution (load_balancing_metrics st) node;
              cpu_threshold = cpu_utilization nm * (5 / 10);
              current_memory = memory_distribution (load_balancing_metrics st) node;
              memory_threshold = memory_usage nm * (5 / 10);
              current_transactions = transaction_distribution (load_balancing_metrics st) node;
              transaction_threshold = real_of_int (transactions_per_sec nm) * (5 / 10)
          in current_cpu < cpu_threshold \<and> current_memory < memory_threshold
             \<and> real_of_int current_transactions < transaction_threshold)"

definition identify_underloaded_nodes :: "NodeId list \<Rightarrow> SimulationState \<Rightarrow> NodeId list" where
  "identify_underloaded_nodes ord st =
     filter (\<lambda>node. node \<notin> failed_nodes st \<and> is_underloaded st node)
       (iter_set ord (active_nodes st))"

definition find_migratable_services ::
    "AdaptiveMigrationEngine \<Rightarrow> NodeId \<Rightarrow> SimulationState \<Rightarrow> real \<Rightarrow> string list" where
  "find_migratable_services eng node st now =
     map fst
       (filter (\<lambda>(service_id, allocated_node).
            allocated_node = node
            \<and> \<not> (now - (case last_migration_times eng service_id of None \<Rightarrow> 0 | Some t \<Rightarrow> t)
                     < migration_cooldown)
            \<and> service_id |\<notin>| active_migrations eng)
          (service_allocations st))"

fun get_node_reliability_score :: "NodeId \<Rightarrow> real" where
  "get_node_reliability_score EDGE1 = 9 / 10"
| "get_node_reliability_score EDGE2 = 7 / 10"
| "get_node_reliability_score CORE1 = 6 / 10"
| "get_node_reliability_score CORE2 = 8 / 10"
| "get_node_reliability_score CLOUD1 = 7 / 10"

fun get_node_layer :: "NodeId \<Rightarrow> int" where
  "get_node_layer EDGE1 = 0"
| "get_node_layer EDGE2 = 0"
| "get_node_layer CORE1 = 1"
| "get_node_layer CORE2 = 1"
| "get_node_layer CLOUD1 = 2"

definition get_layer_distance :: "int \<Rightarrow> int \<Rightarrow> int" where
  "get_layer_distance layer1 layer2 = \<bar>layer1 - layer2\<bar>"

definition get_network_proximity_score :: "NodeId \<Rightarrow> NodeId \<Rightarrow> real" where
  "get_network_proximity_score source destination =
     (let source_layer = get_node_layer source;
          dest_layer = get_node_layer destination
      in if source_layer = dest_layer then 1
         else if \<bar>get_layer_distance source_layer dest_layer\<bar> = 1 then 7 / 10
         else 4 / 10)"

text \<open>
  \<open>_calculate_destination_score\<close>; \<open>1.0 / dest_metrics.latency\<close> raises
  ZeroDivisionError for a configured latency of zero.
\<close>

definition calculate_destination_score ::
    "string \<Rightarrow> NodeId \<Rightarrow> NodeId \<Rightarrow> SimulationState \<Rightarrow> py_error + real" where
  "calculate_destination_score service_id source_node destination_node st =
     (case node_metrics st destination_node of
        None \<Rightarrow> Inr 0
      | Some dm \<Rightarrow>
          let current_cpu = cpu_distribution (load_balancing_metrics st) destination_node;
              current_memory = memory_distribution (load_balancing_metrics st) destination_node;
              current_transactions =
                transaction_distribution (load_balancing_metrics st) destination_node;
              cpu_util = (if cpu_utilization dm > 0 then current_cpu / cpu_utilization dm else 0);
              memory_util = (if memory_usage dm > 0 then current_memory / memory_usage dm else 0);
              transaction_util =
                (if transactions_per_sec dm > 0
                 then real_of_int current_transactions / real_of_int (transactions_per_sec dm)
                 else 0);
              capacity_score =
                (1 - cpu_util) * (4 / 10) + (1 - memory_util) * (3 / 10)
                  + (1 - transaction_util) * (3 / 10)
          in if latency dm = 0 then Inl ZeroDivisionError
             else
               let performance_score = (1 / latency dm) * (throughput dm / 1000);
                   reliability_score = get_node_reliability_score destination_node;
                   proximity_score = get_network_proximity_score source_node destination_node
               in Inr (capacity_score * (4 / 10) + performance_score * (3 / 10)
                        + reliability_score * (2 / 10) + proximity_score * (1 / 10)))"

text \<open>
  The loop of \<open>_find_best_destination\<close>. \<open>best\<close> is \<open>None\<close> while
  \<open>best_score\<close> is still minus infinity, below every score.
\<close>

fun best_destination_loop ::
    "NodeId list \<Rightarrow> string \<Rightarrow> NodeId \<Rightarrow> SimulationState \<Rightarrow> (real \<times> NodeId) option
       \<Rightarrow> py_error + NodeId option" where
  "best_destination_loop [] service_id source_node st best = Inr (map_option snd best)"
| "best_destination_loop (destination_node # ds) service_id source_node st best =
     (if destination_node = source_node
      then best_destination_loop ds service_id source_node st best
      else
        case calculate_destination_score service_id source_node destination_node st of
          Inl e \<Rightarrow> Inl e
        | Inr score \<Rightarrow>
            if (case best of None \<Rightarrow> True | Some (best_score, best_node) \<Rightarrow> score > best_score)
            then best_destination_loop ds service_id source_node st (Some (score, destination_node))
            else best_destination_loop ds service_id source_node st best)"

definition find_best_destination ::
    "string \<Rightarrow> NodeId \<Rightarrow> NodeId list \<Rightarrow> SimulationState \<Rightarrow> py_error + NodeId option" where
  "find_best_destination service_id source_node underloaded_nodes st =
     (if underloaded_nodes = [] then Inr None
      else best_destination_loop underloaded_nodes service_id source_node st None)"

definition calculate_load_trend_priority :: "AdaptiveMigrationEngine \<Rightarrow> NodeId \<Rightarrow> real" where
  "calculate_load_trend_priority eng node =
     (let history = node_performance_history eng node
      in if length history < 2 then 0
         else
           let recent_loads = map snd (drop (length history - 10) history)
           in if length recent_loads < 2 then 0
              else
                let trend = (last recent_loads - hd recent_loads) / real (length recent_loads)
                in min 1 (max 0 (trend / 10)))"

definition calculate_migration_priority ::
    "AdaptiveMigrationEngine \<Rightarrow> string \<Rightarrow> NodeId \<Rightarrow> NodeId \<Rightarrow> SimulationState \<Rightarrow> real" where
  "calculate_migration_priority eng service_id source_node destination_node st =
     (case node_metrics st source_node of
        None \<Rightarrow> 0
      | Some sm \<Rightarrow>
          let current_cpu = cpu_distribution (load_balancing_metrics st) source_node;
              cpu_overload = max 0 (current_cpu - cpu_utilization sm * (8 / 10));
              cpu_overload_ratio =
                (if cpu_utilization sm > 0 then cpu_overload / (cpu_utilization sm * (2 / 10))
                 else 0);
              current_memory = memory_distribution (load_balancing_metrics st) source_node;
              memory_overload = max 0 (current_memory - memory_usage sm * (8 / 10));
              memory_overload_ratio =
                (if memory_usage sm > 0 then memory_overload / (memory_usage sm * (2 / 10))
                 else 0);
              overload_priority = min 1 (max cpu_overload_ratio memory_overload_ratio);
              trend_priority = calculate_load_trend_priority eng source_node;
              priority = overload_priority * (7 / 10) + trend_priority * (3 / 10)
          in min 1 (max 0 priority))"

definition estimate_migration_benefit ::
    "string \<Rightarrow> NodeId \<Rightarrow> NodeId \<Rightarrow> SimulationState \<Rightarrow> real" where
  "estimate_migration_benefit service_id source_node destination_node st =
     (let estimated_cpu_reduction = 5;
          estimated_memory_reduction = 5 / 10
      in case node_metrics st source_node of
           None \<Rightarrow> 0
         | Some sm \<Rightarrow>
             let cpu_benefit =
                   (if cpu_utilization sm > 0 then estimated_cpu_reduction / cpu_utilization sm
                    else 0);
                 memory_benefit =
                   (if memory_usage sm > 0 then estimated_memory_reduction / memory_usage sm
                    else 0);
                 benefit = (cpu_benefit + memory_benefit) / 2
             in min 1 (max 0 benefit))"

text \<open>
  \<open>_generate_migration_decisions\<close>: the inner loop over the migratable services
  of one source node, then the outer loop over the overloaded nodes.
\<close>

fun decisions_for_services ::
    "string list \<Rightarrow> AdaptiveMigrationEngine \<Rightarrow> NodeId \<Rightarrow> NodeId list \<Rightarrow> SimulationState
       \<Rightarrow> py_error + MigrationDecision list" where
  "decisions_for_services [] eng source_node underloaded_nodes st = Inr []"
| "decisions_for_services (service_id # sids) eng source_node underloaded_nodes st =
     (case find_best_destination service_id source_node underloaded_nodes st of
        Inl e \<Rightarrow> Inl e
      | Inr None \<Rightarrow> decisions_for_services sids eng source_node underloaded_nodes st
      | Inr (Some best_destination) \<Rightarrow>
          let decision =
                \<lparr>md_service_id = service_id,
                 md_source_node = source_node,
                 md_destination_node = best_destination,
                 md_reason = ''Load balancing: '' @ node_value source_node @ '' overloaded'',
                 md_priority =
                   calculate_migration_priority eng service_id source_node best_destination st,
                 estimated_benefit =
                   estimate_migration_benefit service_id source_node best_destination st\<rparr>
          in case decisions_for_services sids eng source_node underloaded_nodes st of
               Inl e \<Rightarrow> Inl e
             | Inr rest \<Rightarrow> Inr (decision # rest))"

fun generate_migration_decisions ::
    "AdaptiveMigrationEngine \<Rightarrow> SimulationState \<Rightarrow> NodeId list \<Rightarrow> NodeId list \<Rightarrow> real
       \<Rightarrow> py_error + MigrationDecision list" where
  "generate_migration_decisions eng st [] underloaded_nodes now = Inr []"
| "generate_migration_decisions eng st (source_node # srcs) underloaded_nodes now =
     (case decisions_for_services (find_migratable_services eng source_node st now)
             eng source_node underloaded_nodes st of
        Inl e \<Rightarrow> Inl e
      | Inr ds \<Rightarrow>
          (case generate_migration_decisions eng st srcs underloaded_nodes now of
             Inl e \<Rightarrow> Inl e
           | Inr rest \<Rightarrow> Inr (ds @ rest)))"

definition execute_migration_decision ::
    "AdaptiveMigrationEngine \<Rightarrow> MigrationDecision \<Rightarrow> real \<Rightarrow> rng
       \<Rightarrow> MigrationEvent \<times> AdaptiveMigrationEngine \<times> rng" where
  "execute_migration_decision eng decision now r =
     (let (u, r1) = py_random r;
          success = (u < migration_success_rate);
          (migration_duration, r2) = py_uniform 1 10 r1;
          completion_time = now + migration_duration;
          migration =
            \<lparr>me_service_id = md_service_id decision,
             me_source_node = md_source_node decision,
             me_destination_node = md_destination_node decision,
             me_start_time = now,
             me_completion_time = (if success then Some completion_time else None),
             me_success = success,
             me_reason = md_reason decision\<rparr>;
          eng1 = eng\<lparr>last_migration_times :=
                       (last_migration_times eng)(md_service_id decision \<mapsto> now),
                     ame_migration_history := ame_migration_history eng @ [migration]\<rparr>;
          eng2 = (if success then eng1
                  else eng1\<lparr>active_migrations :=
                              active_migrations eng1 |-| {|md_service_id decision|}\<rparr>)
      in (migration, eng2, r2))"

text \<open>
  The execution loop of \<open>evaluate_migrations\<close> over the sorted decisions;
  \<open>migs\<close> is the list \<open>migrations\<close> built so far.
  A \<open>MigrationEvent\<close> object is always truthy, so every executed decision is
  appended and its service id added to \<open>active_migrations\<close>.
\<close>

fun execute_decisions ::
    "MigrationDecision list \<Rightarrow> real \<Rightarrow> MigrationEvent list \<Rightarrow> AdaptiveMigrationEngine \<Rightarrow> rng
       \<Rightarrow> MigrationEvent list \<times> AdaptiveMigrationEngine \<times> rng" where
  "execute_decisions [] now migs eng r = (migs, eng, r)"
| "execute_decisions (decision # ds) now migs eng r =
     (if length migs \<ge> max_concurrent_migrations then (migs, eng, r)
      else
        let (migration, eng1, r1) = execute_migration_decision eng decision now r;
            eng2 = eng1\<lparr>active_migrations :=
                         finsert (md_service_id decision) (active_migrations eng1)\<rparr>
        in execute_decisions ds now (migs @ [migration]) eng2 r1)"

text \<open>
  \<open>evaluate_migrations\<close>. \<open>now\<close> is the clock reading of the function itself,
  \<open>hist_time\<close> the later one of \<open>_update_performance_history\<close>, \<open>ord\<close> the order
  in which \<open>state.active_nodes\<close> is iterated. \<open>sorted(..., reverse=True)\<close> is
  stable: decisions of equal priority keep their order.
\<close>

definition evaluate_migrations ::
    "AdaptiveMigrationEngine \<Rightarrow> SimulationState \<Rightarrow> NodeId list \<Rightarrow> real \<Rightarrow> real \<Rightarrow> rng
       \<Rightarrow> py_error + (MigrationEvent list \<times> AdaptiveMigrationEngine \<times> rng)" where
  "evaluate_migrations eng st ord now hist_time r =
     (if fcard (active_migrations eng) \<ge> max_concurrent_migrations then Inr ([], eng, r)
      else
        let eng1 = update_performance_history eng st hist_time;
            overloaded_nodes = identify_overloaded_nodes ord st;
            underloaded_nodes = identify_underloaded_nodes ord st
        in if overloaded_nodes = [] \<or> underloaded_nodes = [] then Inr ([], eng1, r)
           else
             case generate_migration_decisions eng1 st overloaded_nodes underloaded_nodes now of
               Inl e \<Rightarrow> Inl e
             | Inr migration_decisions \<Rightarrow>
                 Inr (execute_decisions
                        (sort_key (\<lambda>d. - md_priority d) migration_decisions)
                        now [] eng1 r))"

definition complete_migration :: "AdaptiveMigrationEngine \<Rightarrow> string \<Rightarrow> AdaptiveMigrationEngine" where
  "complete_migration eng service_id =
     eng\<lparr>active_migrations := active_migrations eng |-| {|service_id|}\<rparr>"

section \<open>The simulation engine (load_balancer_simulation.py)\<close>

subsection \<open>Configuration and initial state\<close>

text \<open>The default \<open>node_baseline_metrics\<close> of \<open>SimulationConfig\<close>.\<close>

definition default_node_baseline_metrics :: "NodeId \<rightharpoonup> NodeMetrics" where
  "default_node_baseline_metrics = [
     EDGE1 \<mapsto> \<lparr>latency = 12, throughput = 500, packet_loss = 1 / 10,
       cpu_utilization = 45, memory_usage = 8, transactions_per_sec = 150,
       lock_contention = 8\<rparr>,
     EDGE2 \<mapsto> \<lparr>latency = 15, throughput = 470, packet_loss = 2 / 10,
       cpu_utilization = 50, memory_usage = 45 / 10, transactions_per_sec = 100,
       lock_contention = 12\<rparr>,
     CORE1 \<mapsto> \<lparr>latency = 8, throughput = 1000, packet_loss = 5 / 100,
       cpu_utilization = 60, memory_usage = 12, transactions_per_sec = 250,
       lock_contention = 5\<rparr>,
     CORE2 \<mapsto> \<lparr>latency = 10, throughput = 950, packet_loss = 8 / 100,
       cpu_utilization = 55, memory_usage = 10, transactions_per_sec = 200,
       lock_contention = 10\<rparr>,
     CLOUD1 \<mapsto> \<lparr>latency = 22, throughput = 1250, packet_loss = 15 / 100,
       cpu_utilization = 72, memory_usage = 16, transactions_per_sec = 300,
       lock_contention = 15\<rparr>]"

record SimulationConfig =
  simulation_duration :: real
  time_step :: real
  failure_injection_enabled :: bool
  network_delay_simulation_enabled :: bool
  adaptive_migration_enabled :: bool
  java_integration_enabled :: bool
  node_baseline_metrics :: "NodeId \<rightharpoonup> NodeMetrics"

text \<open>
  The state built by \<open>LoadBalancerSimulation.__init__\<close> from the configured
  metrics, at clock reading \<open>t0\<close>.
\<close>

definition initial_state :: "(NodeId \<rightharpoonup> NodeMetrics) \<Rightarrow> real \<Rightarrow> SimulationState" where
  "initial_state baseline t0 =
     \<lparr>current_time = t0,
      active_nodes = set all_nodes,
      failed_nodes = {},
      node_metrics = baseline,
      service_allocations = [],
      active_failures = [],
      migration_history = [],
      load_balancing_metrics =
        \<lparr>cpu_distribution = (\<lambda>node. 0),
         memory_distribution = (\<lambda>node. 0),
         transaction_distribution = (\<lambda>node. 0),
         load_balance_index = 1,
         total_services = 0,
         migrations = 0,
         last_update_timestamp = t0\<rparr>\<rparr>"

text \<open>
  The fields of a \<open>LoadBalancerSimulation\<close>. The network delay simulator only
  hands back a delay; the engine keeps whether it exists, and the delay it returns
  is an input of each request. The Java bridge is created but never called by the
  engine.
\<close>

record LoadBalancerSimulation =
  sim_state :: SimulationState
  failure_injector :: "FailureInjector option"
  network_delay_simulator :: bool
  adaptive_migration_engine :: "AdaptiveMigrationEngine option"
  current_strategy :: LoadBalancingStrategy
  node_weights :: "NodeId \<rightharpoonup> real"
  performance_history :: "NodeId \<Rightarrow> real list"
  load_balance_history :: "real list"

text \<open>
  \<open>_initialize_node_weights\<close>; \<open>metrics.throughput / metrics.latency\<close> raises
  ZeroDivisionError for a configured latency of zero.
\<close>

definition initialize_node_weights ::
    "(NodeId \<rightharpoonup> NodeMetrics) \<Rightarrow> py_error + (NodeId \<rightharpoonup> real)" where
  "initialize_node_weights baseline =
     (if list_ex (\<lambda>node. case baseline node of None \<Rightarrow> False | Some m \<Rightarrow> latency m = 0) all_nodes
      then Inl ZeroDivisionError
      else Inr (\<lambda>node.
        case baseline node of
          None \<Rightarrow> None
        | Some m \<Rightarrow>
            let base_weight = (throughput m / latency m) / 100;
                reliability_factor =
                  (if node \<in> {EDGE1, CORE2} then 9 / 10
                   else if node \<in> {EDGE2, CLOUD1} then 8 / 10
                   else 7 / 10)
            in Some (base_weight * reliability_factor)))"

definition new_simulation :: "SimulationConfig \<Rightarrow> real \<Rightarrow> py_error + LoadBalancerSimulation" where
  "new_simulation config t0 =
     (case initialize_node_weights (node_baseline_metrics config) of
        Inl e \<Rightarrow> Inl e
      | Inr weights \<Rightarrow>
          Inr \<lparr>sim_state = initial_state (node_baseline_metrics config) t0,
               failure_injector =
                 (if failure_injection_enabled config then Some new_failure_injector else None),
               network_delay_simulator = network_delay_simulation_enabled config,
               adaptive_migration_engine =
                 (if adaptive_migration_enabled config then Some new_migration_engine else None),
               current_strategy = RESOURCE_AWARE,
               node_weights = weights,
               performance_history = (\<lambda>node. []),
               load_balance_history = []\<rparr>)"

subsection \<open>Request admission\<close>

text \<open>
  What a request meets that the program does not fix: the order \<open>re_ord\<close> in which
  the set \<open>active_nodes - failed_nodes\<close> is listed, the value \<open>re_hash\<close> of
  \<open>hash(request.service_id)\<close>, the delay \<open>re_delay\<close> returned by the network delay
  simulator when there is one, the clock reading \<open>re_clock\<close> and the random source.
\<close>

record RequestEnv =
  re_ord :: "NodeId list"
  re_hash :: int
  re_delay :: real
  re_clock :: real
  re_rng :: rng

text \<open>\<open>min(xs, key=f)\<close> on a non-empty list: the first element of least key.\<close>

fun py_min_key :: "('a \<Rightarrow> 'k::linorder) \<Rightarrow> 'a \<Rightarrow> 'a list \<Rightarrow> 'a" where
  "py_min_key f best [] = best"
| "py_min_key f best (x # xs) = py_min_key f (if f x < f best then x else best) xs"

definition select_node_weighted_round_robin ::
    "LoadBalancerSimulation \<Rightarrow> int \<Rightarrow> NodeId list \<Rightarrow> NodeId" where
  "select_node_weighted_round_robin sim h available_nodes =
     (let weighted_nodes =
            concat (map (\<lambda>node.
                let weight = (case node_weights sim node of None \<Rightarrow> 1 | Some w \<Rightarrow> w);
                    copies = max 1 (py_int (weight * 10))
                in replicate (nat copies) node) available_nodes);
          index = h mod int (length weighted_nodes)
      in weighted_nodes ! nat index)"

definition select_node_least_connections ::
    "LoadBalancerSimulation \<Rightarrow> NodeId list \<Rightarrow> NodeId" where
  "select_node_least_connections sim available_nodes =
     (let connection_counts =
            (\<lambda>node. length (filter (\<lambda>(service_id, n). n = node \<and> n \<in> set available_nodes)
                             (service_allocations (sim_state sim))))
      in py_min_key connection_counts (hd available_nodes) (tl available_nodes))"

definition can_accommodate_request ::
    "SimulationState \<Rightarrow> NodeId \<Rightarrow> ServiceRequest \<Rightarrow> py_error + bool" where
  "can_accommodate_request st node request =
     (case node_metrics st node of
        None \<Rightarrow> Inl KeyError
      | Some metrics \<Rightarrow>
          let current_cpu = cpu_distribution (load_balancing_metrics st) node;
              current_memory = memory_distribution (load_balancing_metrics st) node;
              current_transactions = transaction_distribution (load_balancing_metrics st) node;
              cpu_ok = (current_cpu + cpu_requirement request \<le> cpu_utilization metrics);
              memory_ok = (current_memory + memory_requirement request \<le> memory_usage metrics);
              transaction_ok =
                (current_transactions + transaction_load request \<le> transactions_per_sec metrics)
          in Inr (cpu_ok \<and> memory_ok \<and> transaction_ok))"

definition calculate_node_score ::
    "LoadBalancerSimulation \<Rightarrow> NodeId \<Rightarrow> ServiceRequest \<Rightarrow> py_error + real" where
  "calculate_node_score sim node request =
     (let st = sim_state sim
      in case node_metrics st node of
           None \<Rightarrow> Inl KeyError
         | Some metrics \<Rightarrow>
             let weight = (case node_weights sim node of None \<Rightarrow> 1 | Some w \<Rightarrow> w);
                 current_cpu = cpu_distribution (load_balancing_metrics st) node;
                 current_memory = memory_distribution (load_balancing_metrics st) node;
                 current_transactions = transaction_distribution (load_balancing_metrics st) node;
                 cpu_util =
                   (if cpu_utilization metrics > 0 then current_cpu / cpu_utilization metrics
                    else 0);
                 memory_util =
                   (if memory_usage metrics > 0 then current_memory / memory_usage metrics else 0);
                 transaction_util =
                   (if transactions_per_sec metrics > 0
                    then real_of_int current_transactions
                           / real_of_int (transactions_per_sec metrics)
                    else 0);
                 capacity_score =
                   (1 - cpu_util) * (4 / 10) + (1 - memory_util) * (3 / 10)
                     + (1 - transaction_util) * (3 / 10)
             in if latency metrics = 0 then Inl ZeroDivisionError
                else
                  let performance_score =
                        weight * (1 / latency metrics) * (throughput metrics / 1000);
                      priority_bonus = real_of_int (priority request) / 10
                  in Inr (capacity_score * (6 / 10) + performance_score * (3 / 10)
                           + priority_bonus * (1 / 10)))"

definition find_least_loaded_node :: "SimulationState \<Rightarrow> NodeId list \<Rightarrow> NodeId" where
  "find_least_loaded_node st available_nodes =
     py_min_key (\<lambda>node.
         cpu_distribution (load_balancing_metrics st) node
           + memory_distribution (load_balancing_metrics st) node
           + real_of_int (transaction_distribution (load_balancing_metrics st) node))
       (hd available_nodes) (tl available_nodes)"

text \<open>
  The loop of \<open>_select_node_resource_aware\<close>; \<open>best\<close> is \<open>None\<close> while
  \<open>best_score\<close> is minus infinity and \<open>best_node\<close> is \<open>None\<close>.
\<close>

fun resource_aware_loop ::
    "NodeId list \<Rightarrow> LoadBalancerSimulation \<Rightarrow> ServiceRequest \<Rightarrow> (real \<times> NodeId) option
       \<Rightarrow> py_error + NodeId option" where
  "resource_aware_loop [] sim request best = Inr (map_option snd best)"
| "resource_aware_loop (node # ns) sim request best =
     (case can_accommodate_request (sim_state sim) node request of
        Inl e \<Rightarrow> Inl e
      | Inr False \<Rightarrow> resource_aware_loop ns sim request best
      | Inr True \<Rightarrow>
          (case calculate_node_score sim node request of
             Inl e \<Rightarrow> Inl e
           | Inr score \<Rightarrow>
               if (case best of None \<Rightarrow> True | Some (best_score, best_node) \<Rightarrow> score > best_score)
               then resource_aware_loop ns sim request (Some (score, node))
               else resource_aware_loop ns sim request best))"

definition select_node_resource_aware ::
    "LoadBalancerSimulation \<Rightarrow> ServiceRequest \<Rightarrow> NodeId list \<Rightarrow> py_error + NodeId" where
  "select_node_resource_aware sim request available_nodes =
     (case resource_aware_loop available_nodes sim request None of
        Inl e \<Rightarrow> Inl e
      | Inr (Some best_node) \<Rightarrow> Inr best_node
      | Inr None \<Rightarrow> Inr (find_least_loaded_node (sim_state sim) available_nodes))"

definition select_node_for_request ::
    "LoadBalancerSimulation \<Rightarrow> RequestEnv \<Rightarrow> ServiceRequest \<Rightarrow> py_error + NodeId option" where
  "select_node_for_request sim env request =
     (let available_nodes =
            iter_set (re_ord env)
              (active_nodes (sim_state sim) - failed_nodes (sim_state sim))
      in if available_nodes = [] then Inr None
         else case current_strategy sim of
                WEIGHTED_ROUND_ROBIN \<Rightarrow>
                  Inr (Some (select_node_weighted_round_robin sim (re_hash env) available_nodes))
              | LEAST_CONNECTIONS \<Rightarrow>
                  Inr (Some (select_node_least_connections sim available_nodes))
              | RESOURCE_AWARE \<Rightarrow>
                  map_sum id Some (select_node_resource_aware sim request available_nodes))"

definition simulate_network_delay ::
    "LoadBalancerSimulation \<Rightarrow> NodeId \<Rightarrow> RequestEnv \<Rightarrow> py_error + real" where
  "simulate_network_delay sim node env =
     (if network_delay_simulator sim then Inr (re_delay env)
      else case node_metrics (sim_state sim) node of
             None \<Rightarrow> Inl KeyError
           | Some metrics \<Rightarrow>
               let base_latency = latency metrics / 1000;
                   (jitter, r') = py_uniform (- (2 / 1000)) (2 / 1000) (re_rng env)
               in Inr (max (1 / 1000) (base_latency + jitter)))"

definition update_node_load ::
    "SimulationState \<Rightarrow> NodeId \<Rightarrow> ServiceRequest \<Rightarrow> real \<Rightarrow> SimulationState" where
  "update_node_load st node request clock =
     (let metrics = load_balancing_metrics st
      in st\<lparr>load_balancing_metrics :=
           metrics\<lparr>cpu_distribution :=
                     (cpu_distribution metrics)
                       (node := cpu_distribution metrics node + cpu_requirement request),
                   memory_distribution :=
                     (memory_distribution metrics)
                       (node := memory_distribution metrics node + memory_requirement request),
                   transaction_distribution :=
                     (transaction_distribution metrics)
                       (node := transaction_distribution metrics node + transaction_load request),
                   total_services := total_services metrics + 1,
                   last_update_timestamp := clock\<rparr>\<rparr>)"

text \<open>
  \<open>_process_service_request\<close>. Every exception raised inside is caught and turns
  into the result \<open>(False, 0.0)\<close>; the state keeps what had been written before
  the exception.
\<close>

definition process_service_request ::
    "LoadBalancerSimulation \<Rightarrow> RequestEnv \<Rightarrow> ServiceRequest
       \<Rightarrow> (bool \<times> real) \<times> LoadBalancerSimulation" where
  "process_service_request sim env request =
     (case select_node_for_request sim env request of
        Inl e \<Rightarrow> ((False, 0), sim)
      | Inr None \<Rightarrow> ((False, 0), sim)
      | Inr (Some selected_node) \<Rightarrow>
          if selected_node \<in> failed_nodes (sim_state sim) then ((False, 0), sim)
          else
            case simulate_network_delay sim selected_node env of
              Inl e \<Rightarrow> ((False, 0), sim)
            | Inr network_delay \<Rightarrow>
                let st1 = update_node_load (sim_state sim) selected_node request (re_clock env);
                    st2 = st1\<lparr>service_allocations :=
                               dict_set (service_allocations st1) (req_service_id request)
                                 selected_node\<rparr>;
                    sim' = sim\<lparr>sim_state := st2\<rparr>
                in case node_metrics st2 selected_node of
                     None \<Rightarrow> ((False, 0), sim')
                   | Some metrics \<Rightarrow>
                       let processing_time = latency metrics / 1000
                       in ((True, processing_time + network_delay), sim'))"

subsection \<open>Load balance index\<close>

text \<open>
  \<open>_update_load_balance_index\<close> is the one place where a property of the engine
  depends on the exact value that floating-point arithmetic delivers, so its
  arithmetic is modelled with the rounding of Python's floats (IEEE-754 binary64,
  round to nearest, ties to even). \<open>fl x\<close> is the double nearest to the real \<open>x\<close>:
  the significand has 53 bits, so the spacing of the doubles around \<open>x\<close> is
  \<open>2 ^ (\<lfloor>log\<^sub>2 \<bar>x\<bar>\<rfloor> - 52)\<close>, and never less than \<open>2 ^ - 1074\<close> (the subnormal
  numbers). Rounding to nearest-even is symmetric, so the sign is rounded as its
  magnitude. Overflow to \<open>inf\<close> (magnitudes of \<open>2 ^ 1024\<close> and more) is not modelled.
  Every arithmetic operation of the source is one rounding of the exact result.
\<close>

definition round_half_even :: "real \<Rightarrow> int" where
  "round_half_even x =
     (let f = \<lfloor>x\<rfloor>; d = x - of_int f
      in if d < 1 / 2 then f else if 1 / 2 < d then f + 1 else if even f then f else f + 1)"

definition fl_exponent :: "real \<Rightarrow> int" where
  "fl_exponent x = max \<lfloor>log 2 \<bar>x\<bar>\<rfloor> (- 1022) - 52"

definition fl :: "real \<Rightarrow> real" where
  "fl x = (if x = 0 then 0
           else sgn x * (of_int (round_half_even (\<bar>x\<bar> / 2 powr of_int (fl_exponent x)))
                          * 2 powr of_int (fl_exponent x)))"

text \<open>
  The builtin \<open>sum\<close> over floats: it starts from the integer 0 and adds the items
  from left to right, rounding after every addition.
\<close>

definition py_sum :: "real list \<Rightarrow> real" where
  "py_sum xs = foldl (\<lambda>acc x. fl (acc + x)) 0 xs"

text \<open>
  The local variables \<open>mean_load\<close>, \<open>variance\<close> and \<open>coefficient_of_variation\<close> of
  \<open>_update_load_balance_index\<close>, as functions of \<open>cpu_loads\<close>. \<open>len(cpu_loads)\<close> is
  a small integer, exact as a float; \<open>(load - mean_load) ** 2\<close> is the rounded
  square of the rounded difference and \<open>variance ** 0.5\<close> the rounded square root.
  \<open>balance_index\<close> is the value the method stores; \<open>update_load_balance_index\<close>
  reads the loads from the state (\<open>cpu_distribution.values()\<close>, in insertion order,
  which is the order of \<open>NodeId\<close>) and stores the result.
\<close>

definition mean_load :: "real list \<Rightarrow> real" where
  "mean_load cpu_loads = fl (py_sum cpu_loads / real (length cpu_loads))"

definition variance :: "real list \<Rightarrow> real" where
  "variance cpu_loads =
     fl (py_sum (map (\<lambda>load. fl ((fl (load - mean_load cpu_loads)) ^ 2)) cpu_loads)
           / real (length cpu_loads))"

definition coefficient_of_variation :: "real list \<Rightarrow> real" where
  "coefficient_of_variation cpu_loads =
     fl (fl (sqrt (variance cpu_loads)) / mean_load cpu_loads)"

definition balance_index :: "real list \<Rightarrow> real" where
  "balance_index cpu_loads =
     (if cpu_loads = [] \<or> (\<forall>load \<in> set cpu_loads. load = 0) then 1
      else if mean_load cpu_loads = 0 then 1
      else max 0 (fl (1 - min 1 (coefficient_of_variation cpu_loads))))"

definition cpu_loads_of :: "SimulationState \<Rightarrow> real list" where
  "cpu_loads_of s = map (cpu_distribution (load_balancing_metrics s)) all_nodes"

definition update_load_balance_index :: "SimulationState \<Rightarrow> SimulationState" where
  "update_load_balance_index s =
     s\<lparr>load_balancing_metrics :=
         (load_balancing_metrics s)\<lparr>load_balance_index := balance_index (cpu_loads_of s)\<rparr>\<rparr>"

subsection \<open>The state update of a tick\<close>

text \<open>
  The loop of \<open>_update_system_state\<close> over \<open>state.active_failures\<close>: it moves
  nodes between the two sets and stamps \<open>recovery_time\<close> on the scenario objects,
  so it returns the list of scenarios with the two sets.
\<close>

fun update_failed_nodes ::
    "real \<Rightarrow> FailureScenario list \<Rightarrow> NodeId set \<Rightarrow> NodeId set
       \<Rightarrow> FailureScenario list \<times> NodeId set \<times> NodeId set" where
  "update_failed_nodes now [] active failed = ([], active, failed)"
| "update_failed_nodes now (failure # fs) active failed =
     (if fs_start_time failure \<le> now \<and> now \<le> fs_start_time failure + fs_duration failure
      then
        let failed' = insert (fs_node_id failure) failed;
            active' = (if fs_node_id failure \<in> active then active - {fs_node_id failure}
                       else active);
            (fs', active'', failed'') = update_failed_nodes now fs active' failed'
        in (failure # fs', active'', failed'')
      else if now > fs_start_time failure + fs_duration failure then
        if fs_node_id failure \<in> failed then
          let failed' = failed - {fs_node_id failure};
              active' = insert (fs_node_id failure) active;
              (fs', active'', failed'') = update_failed_nodes now fs active' failed'
          in (failure\<lparr>fs_recovery_time := Some now\<rparr> # fs', active'', failed'')
        else
          let (fs', active'', failed'') = update_failed_nodes now fs active failed
          in (failure # fs', active'', failed'')
      else
        let (fs', active'', failed'') = update_failed_nodes now fs active failed
        in (failure # fs', active'', failed''))"

text \<open>The loop that applies the successful migrations of a tick.\<close>

fun apply_migrations :: "MigrationEvent list \<Rightarrow> SimulationState \<Rightarrow> SimulationState" where
  "apply_migrations [] st = st"
| "apply_migrations (migration # ms) st =
     (if me_success migration then
        apply_migrations ms
          (st\<lparr>service_allocations :=
                dict_set (service_allocations st) (me_service_id migration)
                  (me_destination_node migration),
              load_balancing_metrics :=
                (load_balancing_metrics st)
                  \<lparr>migrations := migrations (load_balancing_metrics st) + 1\<rparr>\<rparr>)
      else apply_migrations ms st)"

text \<open>
  What one execution of \<open>_update_system_state\<close> meets that the program does not
  fix: the order \<open>te_ord\<close> in which the migration engine iterates
  \<open>state.active_nodes\<close>, the two clock readings of the migration engine and the
  random source.
\<close>

record TickEnv =
  te_ord :: "NodeId list"
  te_migration_clock :: real
  te_history_clock :: real
  te_rng :: rng

text \<open>
  \<open>_update_system_state\<close>. An exception of the migration engine is not caught
  here nor in \<open>run_simulation\<close>: it ends the run.
\<close>

definition update_system_state ::
    "LoadBalancerSimulation \<Rightarrow> real \<Rightarrow> TickEnv \<Rightarrow> py_error + LoadBalancerSimulation" where
  "update_system_state sim now env =
     (let st = sim_state sim;
          (st1, fi1, r1) =
            (case failure_injector sim of
               None \<Rightarrow> (st, None, te_rng env)
             | Some fi \<Rightarrow>
                 let (new_failures, fi', r') = inject_failures fi now st (te_rng env);
                     (fs', active', failed') =
                       update_failed_nodes now (active_failures st @ new_failures)
                         (active_nodes st) (failed_nodes st)
                 in (st\<lparr>active_failures := fs', active_nodes := active',
                        failed_nodes := failed'\<rparr>, Some fi', r'))
      in case adaptive_migration_engine sim of
           None \<Rightarrow>
             Inr (sim\<lparr>sim_state := update_load_balance_index st1, failure_injector := fi1\<rparr>)
         | Some eng \<Rightarrow>
             (case evaluate_migrations eng st1 (te_ord env) (te_migration_clock env)
                     (te_history_clock env) r1 of
                Inl e \<Rightarrow> Inl e
              | Inr (migs, eng', r2) \<Rightarrow>
                  let st2 = st1\<lparr>migration_history := migration_history st1 @ migs\<rparr>;
                      st3 = apply_migrations migs st2
                  in Inr (sim\<lparr>sim_state := update_load_balance_index st3,
                             failure_injector := fi1,
                             adaptive_migration_engine := Some eng'\<rparr>)))"

definition record_performance_metrics :: "LoadBalancerSimulation \<Rightarrow> LoadBalancerSimulation" where
  "record_performance_metrics sim =
     sim\<lparr>performance_history :=
           (\<lambda>node. performance_history sim node
              @ [cpu_distribution (load_balancing_metrics (sim_state sim)) node]),
         load_balance_history :=
           load_balance_history sim
             @ [load_balance_index (load_balancing_metrics (sim_state sim))]\<rparr>"

subsection \<open>The tick loop\<close>

text \<open>
  One iteration of the loop of \<open>run_simulation\<close>. Its inputs are the clock reading
  \<open>ti_time\<close>, the requests that \<open>_generate_service_requests\<close> produced, each with
  its environment, and the environment of the state update.
\<close>

record TickInput =
  ti_time :: real
  ti_requests :: "(ServiceRequest \<times> RequestEnv) list"
  ti_env :: TickEnv

fun process_requests ::
    "(ServiceRequest \<times> RequestEnv) list \<Rightarrow> LoadBalancerSimulation \<Rightarrow> LoadBalancerSimulation" where
  "process_requests [] sim = sim"
| "process_requests ((request, env) # rs) sim =
     process_requests rs (snd (process_service_request sim env request))"

definition tick :: "TickInput \<Rightarrow> LoadBalancerSimulation \<Rightarrow> py_error + LoadBalancerSimulation" where
  "tick inp sim =
     (let sim1 = sim\<lparr>sim_state := (sim_state sim)\<lparr>current_time := ti_time inp\<rparr>\<rparr>;
          sim2 = process_requests (ti_requests inp) sim1
      in case update_system_state sim2 (ti_time inp) (ti_env inp) of
           Inl e \<Rightarrow> Inl e
         | Inr sim3 \<Rightarrow> Inr (record_performance_metrics sim3))"

text \<open>The loop of \<open>run_simulation\<close>, one input per iteration.\<close>

fun run_ticks :: "TickInput list \<Rightarrow> LoadBalancerSimulation \<Rightarrow> py_error + LoadBalancerSimulation" where
  "run_ticks [] sim = Inr sim"
| "run_ticks (inp # inps) sim =
     (case tick inp sim of Inl e \<Rightarrow> Inl e | Inr sim' \<Rightarrow> run_ticks inps sim')"

section \<open>The scenario of demo.py\<close>

text \<open>
  The configuration of \<open>demo.py\<close> and its manual injection of a CRASH failure of
  10 seconds and severity 0.8 on EDGE1, here at time 100. \<open>inject_specific_failure\<close>
  returns the scenario and records it in the injector only; \<open>demo_failure_sim\<close> is
  the simulation with the returned scenario appended to \<open>state.active_failures\<close>,
  the list that \<open>_update_system_state\<close> reads. \<open>demo_failed_sim\<close> is the same
  simulation once EDGE1 has been moved to \<open>failed_nodes\<close>. \<open>quiet_env\<close> is an
  environment whose random draws are all 0.999, so that no random failure is injected.
\<close>

definition demo_config :: SimulationConfig where
  "demo_config =
     \<lparr>simulation_duration = 30, time_step = 1, failure_injection_enabled = True,
      network_delay_simulation_enabled = True, adaptive_migration_enabled = True,
      java_integration_enabled = False,
      node_baseline_metrics = default_node_baseline_metrics\<rparr>"

definition demo_injection :: "FailureScenario \<times> FailureInjector" where
  "demo_injection = inject_specific_failure new_failure_injector EDGE1 CRASH 10 (8 / 10) 100"

definition demo_failure_sim :: LoadBalancerSimulation where
  "demo_failure_sim =
     (let sim = projr (new_simulation demo_config 100)
      in sim\<lparr>sim_state := (sim_state sim)\<lparr>active_failures := [fst demo_injection]\<rparr>,
             failure_injector := Some (snd demo_injection)\<rparr>)"

definition demo_failed_sim :: LoadBalancerSimulation where
  "demo_failed_sim =
     demo_failure_sim\<lparr>sim_state := (sim_state demo_failure_sim)
        \<lparr>active_nodes := {EDGE2, CORE1, CORE2, CLOUD1}, failed_nodes := {EDGE1}\<rparr>\<rparr>"

definition quiet_env :: TickEnv where
  "quiet_env = \<lparr>te_ord = all_nodes, te_migration_clock = 0, te_history_clock = 0,
       te_rng = sconst (999 / 1000)\<rparr>"

text \<open>
  Random draws for a tick at which only CORE1 fails and its failure cascades: the
  injection draws of EDGE1 and EDGE2 are high, the one of CORE1 is 0, the two draws
  of its scenario are 0, the injection draws of CORE2 and CLOUD1 are high, and every
  later draw is 0.
\<close>

definition core1_failure_draws :: rng where
  "core1_failure_draws =
     999 / 1000 ## 999 / 1000 ## 0 ## 0 ## 0 ## 999 / 1000 ## 999 / 1000 ## sconst 0"

text \<open>
  Requests at the top of the ranges that \<open>_generate_service_requests\<close> draws from
  (25% CPU, 3 GB, 10 transactions), each met by the same environment.
  \<open>loaded_sim\<close> is the demo simulation after it has admitted eight of them, two on
  each core and cloud node and one on each edge node.
\<close>

definition heavy_request :: "string \<Rightarrow> ServiceRequest" where
  "heavy_request sid =
     \<lparr>req_service_id = sid, cpu_requirement = 25, memory_requirement = 3,
      transaction_load = 10, priority = 5, req_timestamp = 100\<rparr>"

definition plain_env :: RequestEnv where
  "plain_env = \<lparr>re_ord = all_nodes, re_hash = 0, re_delay = 1 / 100, re_clock = 100,
                 re_rng = sconst 0\<rparr>"

definition eight_heavy_requests :: "(ServiceRequest \<times> RequestEnv) list" where
  "eight_heavy_requests =
       [(heavy_request ''s1'', plain_env), (heavy_request ''s2'', plain_env),
        (heavy_request ''s3'', plain_env), (heavy_request ''s4'', plain_env),
        (heavy_request ''s5'', plain_env), (heavy_request ''s6'', plain_env),
        (heavy_request ''s7'', plain_env), (heavy_request ''s8'', plain_env)]"

definition loaded_sim :: LoadBalancerSimulation where
  "loaded_sim =
     (projr (new_simulation demo_config 100))
       \<lparr>sim_state := (sim_state (projr (new_simulation demo_config 100)))
          \<lparr>service_allocations :=
             [(''s1'', CORE1), (''s2'', CORE2), (''s3'', CLOUD1), (''s4'', EDGE1),
              (''s5'', EDGE2), (''s6'', CLOUD1), (''s7'', CORE1), (''s8'', CORE2)],
           load_balancing_metrics :=
             \<lparr>cpu_distribution = (\<lambda>node. if node \<in> {EDGE1, EDGE2} then 25 else 50),
              memory_distribution = (\<lambda>node. if node \<in> {EDGE1, EDGE2} then 3 else 6),
              transaction_distribution = (\<lambda>node. if node \<in> {EDGE1, EDGE2} then 10 else 20),
              load_balance_index = 1,
              total_services = 8,
              migrations = 0,
              last_update_timestamp = 100\<rparr>\<rparr>\<rparr>"






section \<open>A failover scenario\<close>

text \<open>
  A risk assessment of CORE1 (Byzantine, risk score 0.9) and the manager that holds the
  replication group created for it when every random draw is 0, so that
  \<open>random.sample\<close> takes the first three candidates. \<open>core1_failed_state\<close> is a
  state in which CORE1 has failed and holds two of three services;
  in \<open>replicas_failed_state\<close> the three replicas of the group have failed as well.
\<close>

definition core1_risk :: RiskAssessment where
  "core1_risk =
     \<lparr>ra_node_id = CORE1, risk_score = 9 / 10, ra_failure_type = BYZANTINE,
      criticality_score = 95 / 100, dependent_nodes = {EDGE1, EDGE2},
      cascade_risk_score = 5 / 10, mitigation_strategies = {}\<rparr>"

definition core1_group_manager :: RedundancyFailoverManager where
  "core1_group_manager =
     fst (create_replication_group_for_node new_redundancy_manager core1_risk
            (select_redundancy_strategy core1_risk) (sconst 0))"

definition core1_failed_state :: SimulationState where
  "core1_failed_state =
     (initial_state default_node_baseline_metrics 0)
       \<lparr>active_nodes := {EDGE1, EDGE2, CORE2, CLOUD1}, failed_nodes := {CORE1},
        service_allocations := [(''service_0'', EDGE1), (''service_2'', CORE1),
                                (''service_7'', CORE1)]\<rparr>"


section \<open>Predicates of the properties\<close>

text \<open>The two node sets split the set of all nodes.\<close>

definition node_sets_partitioned :: "SimulationState \<Rightarrow> bool" where
  "node_sets_partitioned st =
     (active_nodes st \<inter> failed_nodes st = {}
      \<and> active_nodes st \<union> failed_nodes st = set all_nodes)"

text \<open>No configured node has latency zero.\<close>

definition latencies_nonzero :: "SimulationState \<Rightarrow> bool" where
  "latencies_nonzero st = (\<forall>n m. node_metrics st n = Some m \<longrightarrow> latency m \<noteq> 0)"



text \<open>
  No replication group of the manager has its primary node among its replicas.
\<close>

definition groups_exclude_primary :: "RedundancyFailoverManager \<Rightarrow> bool" where
  "groups_exclude_primary mgr =
     (\<forall>(k, grp) \<in> set (replication_groups mgr). primary_node grp \<notin> replica_nodes grp)"

section \<open>Properties\<close>

subsection \<open>Redundancy strategy selection\<close>

text \<open>
  Claim C9. The strategy selected for a risk assessment follows the decision table:
  risk at least 0.85 and Byzantine failure type gives N-way replication; risk at least
  0.85 with any other failure type gives active-active; risk in [0.70, 0.85) gives
  active-active with more than two dependent nodes and active-passive otherwise; risk in
  [0.50, 0.70) gives active-passive; lower risk gives geographic redundancy. In
  particular risk 0.90 with Byzantine type gives N-way replication.
\<close>

theorem select_redundancy_strategy_table:
  "(risk_score risk \<ge> 85 / 100 \<and> ra_failure_type risk = BYZANTINE
      \<longrightarrow> select_redundancy_strategy risk = N_WAY_REPLICATION)
   \<and> (risk_score risk \<ge> 85 / 100 \<and> ra_failure_type risk \<noteq> BYZANTINE
      \<longrightarrow> select_redundancy_strategy risk = ACTIVE_ACTIVE)
   \<and> (70 / 100 \<le> risk_score risk \<and> risk_score risk < 85 / 100
        \<and> card (dependent_nodes risk) > 2
      \<longrightarrow> select_redundancy_strategy risk = ACTIVE_ACTIVE)
   \<and> (70 / 100 \<le> risk_score risk \<and> risk_score risk < 85 / 100
        \<and> \<not> card (dependent_nodes risk) > 2
      \<longrightarrow> select_redundancy_strategy risk = ACTIVE_PASSIVE)
   \<and> (50 / 100 \<le> risk_score risk \<and> risk_score risk < 70 / 100
      \<longrightarrow> select_redundancy_strategy risk = ACTIVE_PASSIVE)
   \<and> (risk_score risk < 50 / 100
      \<longrightarrow> select_redundancy_strategy risk = GEOGRAPHIC_REDUNDANCY)
   \<and> (risk_score risk = 90 / 100 \<and> ra_failure_type risk = BYZANTINE
      \<longrightarrow> select_redundancy_strategy risk = N_WAY_REPLICATION)"
  by (simp add: select_redundancy_strategy_def critical_risk_threshold_def
        high_risk_threshold_def)

theorem select_redundancy_strategy_table_witness:
  "select_redundancy_strategy
     \<lparr>ra_node_id = CORE1, risk_score = 90 / 100, ra_failure_type = BYZANTINE,
      criticality_score = 95 / 100, dependent_nodes = {EDGE1, EDGE2},
      cascade_risk_score = 8 / 10, mitigation_strategies = {}\<rparr> = N_WAY_REPLICATION
   \<and> select_redundancy_strategy
     \<lparr>ra_node_id = CORE2, risk_score = 75 / 100, ra_failure_type = CRASH,
      criticality_score = 9 / 10, dependent_nodes = {EDGE1, EDGE2, CLOUD1},
      cascade_risk_score = 6 / 10, mitigation_strategies = {}\<rparr> = ACTIVE_ACTIVE
   \<and> select_redundancy_strategy
     \<lparr>ra_node_id = EDGE1, risk_score = 75 / 100, ra_failure_type = CRASH,
      criticality_score = 7 / 10, dependent_nodes = {},
      cascade_risk_score = 3 / 10, mitigation_strategies = {}\<rparr> = ACTIVE_PASSIVE
   \<and> select_redundancy_strategy
     \<lparr>ra_node_id = EDGE2, risk_score = 2 / 10, ra_failure_type = OMISSION,
      criticality_score = 65 / 100, dependent_nodes = {},
      cascade_risk_score = 1 / 10, mitigation_strategies = {}\<rparr> = GEOGRAPHIC_REDUNDANCY"
  using select_redundancy_strategy_table
    [of "\<lparr>ra_node_id = CORE1, risk_score = 90 / 100, ra_failure_type = BYZANTINE,
      criticality_score = 95 / 100, dependent_nodes = {EDGE1, EDGE2},
      cascade_risk_score = 8 / 10, mitigation_strategies = {}\<rparr>"]
    select_redundancy_strategy_table
    [of "\<lparr>ra_node_id = CORE2, risk_score = 75 / 100, ra_failure_type = CRASH,
      criticality_score = 9 / 10, dependent_nodes = {EDGE1, EDGE2, CLOUD1},
      cascade_risk_score = 6 / 10, mitigation_strategies = {}\<rparr>"]
    select_redundancy_strategy_table
    [of "\<lparr>ra_node_id = EDGE1, risk_score = 75 / 100, ra_failure_type = CRASH,
      criticality_score = 7 / 10, dependent_nodes = {},
      cascade_risk_score = 3 / 10, mitigation_strategies = {}\<rparr>"]
    select_redundancy_strategy_table
    [of "\<lparr>ra_node_id = EDGE2, risk_score = 2 / 10, ra_failure_type = OMISSION,
      criticality_score = 65 / 100, dependent_nodes = {},
      cascade_risk_score = 1 / 10, mitigation_strategies = {}\<rparr>"]
  by simp


subsection \<open>Load balance index\<close>

text \<open>Rounding to the nearest integer, ties to even.\<close>

lemma rhe_of_int: "round_half_even (of_int n) = n"
  by (simp add: round_half_even_def)

lemma rhe_cases: "round_half_even x = \<lfloor>x\<rfloor> \<or> round_half_even x = \<lfloor>x\<rfloor> + 1"
  by (simp add: round_half_even_def Let_def)

lemma rhe_mono:
  assumes xy: "x \<le> y"
  shows "round_half_even x \<le> round_half_even y"
proof (cases "\<lfloor>x\<rfloor> = \<lfloor>y\<rfloor>")
  case True
  then show ?thesis using xy by (auto simp: round_half_even_def Let_def)
next
  case False
  moreover have "\<lfloor>x\<rfloor> \<le> \<lfloor>y\<rfloor>" using xy by (rule floor_mono)
  ultimately have "\<lfloor>x\<rfloor> + 1 \<le> \<lfloor>y\<rfloor>" by simp
  moreover have "round_half_even x \<le> \<lfloor>x\<rfloor> + 1" using rhe_cases[of x] by auto
  moreover have "\<lfloor>y\<rfloor> \<le> round_half_even y" using rhe_cases[of y] by auto
  ultimately show ?thesis by simp
qed

lemma rhe_lower: "of_int n \<le> x \<Longrightarrow> n \<le> round_half_even x"
  using rhe_mono[of "of_int n" x] by (simp add: rhe_of_int)


lemma rhe_near:
  assumes "of_int n - 1 / 2 < x" "x < of_int n + 1 / 2"
  shows "round_half_even x = n"
proof -
  have "\<lfloor>x\<rfloor> = n \<or> \<lfloor>x\<rfloor> = n - 1" using assms by linarith
  then show ?thesis
  proof
    assume f: "\<lfloor>x\<rfloor> = n"
    then show ?thesis using assms by (simp add: round_half_even_def Let_def)
  next
    assume f: "\<lfloor>x\<rfloor> = n - 1"
    then show ?thesis using assms by (simp add: round_half_even_def Let_def)
  qed
qed


lemma rhe_tie_odd:
  assumes "x = of_int n + 1 / 2" "odd n"
  shows "round_half_even x = n + 1"
proof -
  have "\<lfloor>x\<rfloor> = n" using assms by linarith
  then show ?thesis using assms by (simp add: round_half_even_def Let_def)
qed

text \<open>Rounding to the nearest double.\<close>

lemma floor_log2:
  assumes "0 < x" "2 powr of_int k \<le> x" "x < 2 powr of_int (k + 1)"
  shows "\<lfloor>log 2 x\<rfloor> = k"
proof -
  have "of_int k \<le> log 2 x" using assms(1,2) by (simp add: le_log_iff)
  moreover have "log 2 x < of_int k + 1" using assms(1,3) by (simp add: log_less_iff)
  ultimately show ?thesis by linarith
qed


lemma fl_0: "fl 0 = 0"
  by (simp add: fl_def)

lemma fl_minus: "fl (- x) = - fl x"
  by (simp add: fl_def fl_exponent_def)

lemma fl_pos_unfold:
  assumes "0 < x"
  shows "fl x = of_int (round_half_even (x / 2 powr of_int (fl_exponent x)))
                  * 2 powr of_int (fl_exponent x)"
  using assms by (simp add: fl_def)

lemma fl_nonneg:
  assumes "0 \<le> x"
  shows "0 \<le> fl x"
proof (cases "x = 0")
  case True then show ?thesis by (simp add: fl_0)
next
  case False
  then have x: "0 < x" using assms by simp
  have "0 \<le> x / 2 powr of_int (fl_exponent x)" using x by simp
  then have "0 \<le> round_half_even (x / 2 powr of_int (fl_exponent x))"
    using rhe_lower[of 0] by simp
  then show ?thesis unfolding fl_pos_unfold[OF x] by simp
qed

lemma fl_round:
  assumes "0 < x" "2 powr of_int k \<le> x" "x < 2 powr of_int (k + 1)" "- 1022 \<le> k"
  shows "fl x = of_int (round_half_even (x / 2 powr of_int (k - 52))) * 2 powr of_int (k - 52)"
proof -
  have "\<lfloor>log 2 \<bar>x\<bar>\<rfloor> = k" using floor_log2[OF assms(1-3)] assms(1) by simp
  then have "fl_exponent x = k - 52" using assms(4) by (simp add: fl_exponent_def)
  then show ?thesis using fl_pos_unfold[OF assms(1)] by simp
qed

lemma powr_int_nat:
  assumes "0 \<le> d"
  shows "(2::real) powr of_int d = of_int (2 ^ nat d)"
  using assms by (simp add: powr_real_of_int)

lemma fl_exact_pos:
  assumes m: "0 < m" "m < 2 ^ 53" and e: "- 1074 \<le> e"
  shows "fl (of_int m * 2 powr of_int e) = of_int m * 2 powr of_int e"
proof -
  define x where "x = real_of_int m * 2 powr of_int e"
  have x: "0 < x" using m by (simp add: x_def)
  have "x < 2 ^ 53 * 2 powr of_int e"
  proof -
    have "real_of_int m < 2 ^ 53" using m(2) by (metis of_int_less_numeral_power_cancel_iff)
    then show ?thesis unfolding x_def by (simp add: mult_strict_right_mono)
  qed
  also have "\<dots> = 2 powr of_int (53 + e)"
    by (simp add: powr_add)
  finally have "log 2 x < of_int (53 + e)" using x by (simp add: log_less_iff)
  then have "\<lfloor>log 2 x\<rfloor> < 53 + e" by linarith
  then have E: "fl_exponent x \<le> e" using e x by (simp add: fl_exponent_def)
  define E where "E = fl_exponent x"
  have d: "0 \<le> e - E" using E by (simp add: E_def)
  have "x / 2 powr of_int E = real_of_int m * 2 powr of_int (e - E)"
    by (simp add: x_def powr_diff)
  also have "\<dots> = of_int (m * 2 ^ nat (e - E))"
    using powr_int_nat[OF d] by simp
  finally have "round_half_even (x / 2 powr of_int E) = m * 2 ^ nat (e - E)"
    by (simp only: rhe_of_int)
  then have "fl x = of_int (m * 2 ^ nat (e - E)) * 2 powr of_int E"
    using fl_pos_unfold[OF x] by (simp add: E_def)
  also have "\<dots> = real_of_int m * (2 powr of_int (e - E) * 2 powr of_int E)"
    using powr_int_nat[OF d] by simp
  also have "\<dots> = real_of_int m * 2 powr of_int e"
    by (simp add: powr_add[symmetric])
  finally show ?thesis by (simp add: x_def)
qed

lemma fl_exact:
  assumes "\<bar>m\<bar> < 2 ^ 53" "- 1074 \<le> e"
  shows "fl (of_int m * 2 powr of_int e) = of_int m * 2 powr of_int e"
proof -
  consider "m = 0" | "0 < m" | "m < 0" by linarith
  then show ?thesis
  proof cases
    case 1 then show ?thesis by (simp add: fl_0)
  next
    case 2 then show ?thesis using assms by (intro fl_exact_pos) auto
  next
    case 3
    then have "fl (of_int (- m) * 2 powr of_int e) = of_int (- m) * 2 powr of_int e"
      using assms by (intro fl_exact_pos) auto
    then show ?thesis using fl_minus[of "of_int m * 2 powr of_int e"] by simp
  qed
qed





lemma fl_1: "fl 1 = 1"
  using fl_exact[of 1 0] by simp


lemma fl_near:
  assumes "0 < x" "2 powr of_int k \<le> x" "x < 2 powr of_int (k + 1)" "- 1022 \<le> k"
    "of_int n - 1 / 2 < x / 2 powr of_int (k - 52)" "x / 2 powr of_int (k - 52) < of_int n + 1 / 2"
  shows "fl x = of_int n * 2 powr of_int (k - 52)"
  using fl_round[OF assms(1-4)] rhe_near[OF assms(5,6)] by simp


lemma fl_numeral:
  assumes "(numeral n :: int) < 2 ^ 53"
  shows "fl (numeral n) = numeral n"
  using fl_exact[of "numeral n" 0] assms by simp




lemma py_sum_zero: "\<forall>x \<in> set xs. x = 0 \<Longrightarrow> py_sum xs = 0"
  unfolding py_sum_def by (induction xs) (simp_all add: fl_0)


lemma mean_load_zero: "xs = [] \<or> (\<forall>x \<in> set xs. x = 0) \<Longrightarrow> mean_load xs = 0"
proof -
  assume "xs = [] \<or> (\<forall>x \<in> set xs. x = 0)"
  then have "\<forall>x \<in> set xs. x = 0" by auto
  then have "py_sum xs = 0" by (rule py_sum_zero)
  then show ?thesis by (simp add: mean_load_def fl_0)
qed



lemma balance_index_clamp: "0 \<le> fl (1 - min 1 c)"
  by (intro fl_nonneg) simp

lemma balance_index_formula:
  assumes "mean_load xs \<noteq> 0"
  shows "balance_index xs = fl (1 - min 1 (coefficient_of_variation xs))"
proof -
  have "\<not> (xs = [] \<or> (\<forall>x \<in> set xs. x = 0))" using mean_load_zero[of xs] assms by blast
  then have "balance_index xs = max 0 (fl (1 - min 1 (coefficient_of_variation xs)))"
    using assms by (simp only: balance_index_def if_False)
  then show ?thesis using balance_index_clamp[of "coefficient_of_variation xs"]
    by (simp add: max_def)
qed




lemma five_loads:
  assumes s: "fl a = s1" "fl (s1 + b) = s2" "fl (s2 + c) = s3" "fl (s3 + d) = s4"
             "fl (s4 + e) = s5"
    and m: "fl (s5 / 5) = m"
    and q: "fl ((fl (a - m)) ^ 2) = qa" "fl ((fl (b - m)) ^ 2) = qb" "fl ((fl (c - m)) ^ 2) = qc"
           "fl ((fl (d - m)) ^ 2) = qd" "fl ((fl (e - m)) ^ 2) = qe"
    and t: "fl qa = t1" "fl (t1 + qb) = t2" "fl (t2 + qc) = t3" "fl (t3 + qd) = t4"
           "fl (t4 + qe) = t5"
    and v: "fl (t5 / 5) = v"
  shows "mean_load [a, b, c, d, e] = m"
    and "coefficient_of_variation [a, b, c, d, e] = fl (fl (sqrt v) / m)"
proof -
  show mm: "mean_load [a, b, c, d, e] = m"
    by (simp add: mean_load_def py_sum_def s m)
  have "variance [a, b, c, d, e] = v"
    by (simp add: variance_def mm py_sum_def q t v)
  then show "coefficient_of_variation [a, b, c, d, e] = fl (fl (sqrt v) / m)"
    by (simp add: coefficient_of_variation_def mm)
qed

text \<open>The index on four load vectors.\<close>

lemmas fl_eval_simps = powr_neg_numeral fl_numeral fl_minus fl_0 fl_1

lemma skewed_loads:
  "mean_load [4, 4, 4, 4, 9] = 5"
  "coefficient_of_variation [4, 4, 4, 4, 9] = 7205759403792794 / 2 ^ 54"
  "fl (1 - min 1 (7205759403792794 / 2 ^ 54)) = 5404319552844595 / 2 ^ 53"
proof -
  have s: "fl 4 = 4" "fl (4 + 4) = 8" "fl (8 + 4) = 12" "fl (12 + 4) = 16" "fl (16 + 9) = 25"
    by (simp_all add: fl_eval_simps)
  have m: "fl (25 / 5) = 5" by (simp add: fl_eval_simps)
  have q: "fl ((fl (4 - 5)) ^ 2) = 1" "fl ((fl (9 - 5)) ^ 2) = 16"
    by (simp_all add: fl_eval_simps)
  have t: "fl 1 = 1" "fl (1 + 1) = 2" "fl (2 + 1) = 3" "fl (3 + 1) = 4" "fl (4 + 16) = 20"
    by (simp_all add: fl_eval_simps)
  have v: "fl (20 / 5) = 4" by (simp add: fl_eval_simps)
  have sd: "fl (sqrt 4) = 2"
  proof -
    have "sqrt 4 = 2" using real_sqrt_abs[of 2] by simp
    then show ?thesis by (simp add: fl_eval_simps)
  qed
  have cv: "fl (2 / 5) = 7205759403792794 / 2 ^ 54"
    using fl_near[of "2 / 5" "- 2" 7205759403792794] by (simp add: powr_neg_numeral)
  note r = five_loads[OF s m q(1) q(1) q(1) q(1) q(2) t v]
  show "mean_load [4, 4, 4, 4, 9] = 5" by (rule r(1))
  show "coefficient_of_variation [4, 4, 4, 4, 9] = 7205759403792794 / 2 ^ 54"
    unfolding r(2) sd cv by (rule refl)
  show "fl (1 - min 1 (7205759403792794 / 2 ^ 54)) = 5404319552844595 / 2 ^ 53"
    using fl_near[of "1 - 7205759403792794 / 2 ^ 54" "- 1" 5404319552844595]
    by (simp add: powr_neg_numeral)
qed







lemma index_of_skewed_loads: "balance_index [4, 4, 4, 4, 9] = 5404319552844595 / 2 ^ 53"
proof -
  have "mean_load [4, 4, 4, 4, 9] \<noteq> 0" unfolding skewed_loads(1) by simp
  then have "balance_index [4, 4, 4, 4, 9]
               = fl (1 - min 1 (coefficient_of_variation [4, 4, 4, 4, 9]))"
    by (rule balance_index_formula)
  then show ?thesis unfolding skewed_loads(2) skewed_loads(3) .
qed








subsection \<open>Active and failed nodes\<close>

lemma ufn_partition:
  assumes "update_failed_nodes now fs A F = (fs', A', F')" "A \<inter> F = {}" "A \<union> F = UNIV"
  shows "A' \<inter> F' = {} \<and> A' \<union> F' = UNIV"
  using assms
proof (induction fs arbitrary: A F fs' A' F')
  case Nil
  then show ?case by simp
next
  case (Cons g fs)
  let ?n = "fs_node_id g"
  show ?case
  proof (cases "fs_start_time g \<le> now \<and> now \<le> fs_start_time g + fs_duration g")
    case True
    obtain fs1 A1 F1 where r: "update_failed_nodes now fs (A - {?n}) (insert ?n F) = (fs1, A1, F1)"
      by (metis prod_cases3)
    have eq: "(if ?n \<in> A then A - {?n} else A) = A - {?n}" by auto
    from Cons.prems(1) True r eq have "A' = A1" "F' = F1" by (simp_all add: Let_def)
    moreover have "(A - {?n}) \<inter> insert ?n F = {}" using Cons.prems(2) by auto
    moreover have "(A - {?n}) \<union> insert ?n F = UNIV" using Cons.prems(2,3) by auto
    ultimately show ?thesis using Cons.IH[OF r] by simp
  next
    case False
    show ?thesis
    proof (cases "now > fs_start_time g + fs_duration g \<and> ?n \<in> F")
      case True
      obtain fs1 A1 F1 where r: "update_failed_nodes now fs (insert ?n A) (F - {?n}) = (fs1, A1, F1)"
        by (metis prod_cases3)
      from Cons.prems(1) False True r have "A' = A1" "F' = F1" by (simp_all add: Let_def)
      moreover have "insert ?n A \<inter> (F - {?n}) = {}" using Cons.prems(2) by auto
      moreover have "insert ?n A \<union> (F - {?n}) = UNIV" using Cons.prems(2,3) True by auto
      ultimately show ?thesis using Cons.IH[OF r] by simp
    next
      case F2: False
      obtain fs1 A1 F1 where r: "update_failed_nodes now fs A F = (fs1, A1, F1)"
        by (metis prod_cases3)
      from Cons.prems(1) False F2 r have "A' = A1" "F' = F1" by (auto simp: Let_def split: if_splits)
      then show ?thesis using Cons.IH[OF r] Cons.prems(2,3) by simp
    qed
  qed
qed


lemma all_nodes_UNIV: "set all_nodes = UNIV"
proof -
  have "\<And>n. n \<in> set all_nodes"
  proof -
    fix n show "n \<in> set all_nodes" by (cases n) (simp_all add: all_nodes_def)
  qed
  then show ?thesis by blast
qed

lemma update_node_load_sets [simp]:
  "active_nodes (update_node_load st n rq c) = active_nodes st"
  "failed_nodes (update_node_load st n rq c) = failed_nodes st"
  "active_failures (update_node_load st n rq c) = active_failures st"
  "node_metrics (update_node_load st n rq c) = node_metrics st"
  "migration_history (update_node_load st n rq c) = migration_history st"
  "service_allocations (update_node_load st n rq c) = service_allocations st"
  by (simp_all add: update_node_load_def Let_def)

lemma process_service_request_sets:
  "active_nodes (sim_state (snd (process_service_request sim env rq))) = active_nodes (sim_state sim)"
  "failed_nodes (sim_state (snd (process_service_request sim env rq))) = failed_nodes (sim_state sim)"
  by (simp_all add: process_service_request_def Let_def split: sum.splits option.splits)

lemma process_requests_sets:
  "active_nodes (sim_state (process_requests rs sim)) = active_nodes (sim_state sim)
   \<and> failed_nodes (sim_state (process_requests rs sim)) = failed_nodes (sim_state sim)"
  by (induction rs arbitrary: sim) (auto simp: process_service_request_sets)

lemma apply_migrations_sets [simp]:
  "active_nodes (apply_migrations ms st) = active_nodes st"
  "failed_nodes (apply_migrations ms st) = failed_nodes st"
  by (induction ms arbitrary: st) simp_all

lemma update_load_balance_index_sets [simp]:
  "active_nodes (update_load_balance_index st) = active_nodes st"
  "failed_nodes (update_load_balance_index st) = failed_nodes st"
  by (simp_all add: update_load_balance_index_def)

lemma update_system_state_partition:
  assumes "update_system_state sim now env = Inr sim'"
    and "node_sets_partitioned (sim_state sim)"
  shows "node_sets_partitioned (sim_state sim')"
proof -
  let ?st = "sim_state sim"
  obtain st1 fi1 r1 where p1:
    "(case failure_injector sim of
        None \<Rightarrow> (?st, None, te_rng env)
      | Some fi \<Rightarrow>
          let (new_failures, fi', r') = inject_failures fi now ?st (te_rng env);
              (fs', active', failed') =
                update_failed_nodes now (active_failures ?st @ new_failures)
                  (active_nodes ?st) (failed_nodes ?st)
          in (?st\<lparr>active_failures := fs', active_nodes := active',
                 failed_nodes := failed'\<rparr>, Some fi', r')) = (st1, fi1, r1)"
    by (metis prod_cases3)
  have inv1: "node_sets_partitioned st1"
  proof (cases "failure_injector sim")
    case None
    with p1 assms(2) show ?thesis by simp
  next
    case (Some fi)
    obtain nf fi' r' where i: "inject_failures fi now ?st (te_rng env) = (nf, fi', r')"
      by (metis prod_cases3)
    obtain fs' A' F' where u:
      "update_failed_nodes now (active_failures ?st @ nf) (active_nodes ?st) (failed_nodes ?st)
         = (fs', A', F')"
      by (metis prod_cases3)
    from p1 Some i u have st1: "st1 = ?st\<lparr>active_failures := fs', active_nodes := A',
                 failed_nodes := F'\<rparr>" by simp
    from ufn_partition[OF u] assms(2) have "A' \<inter> F' = {} \<and> A' \<union> F' = UNIV"
      by (simp add: node_sets_partitioned_def all_nodes_UNIV)
    then show ?thesis by (simp add: st1 node_sets_partitioned_def all_nodes_UNIV)
  qed
  from assms(1) p1 have
    "active_nodes (sim_state sim') = active_nodes st1 \<and>
     failed_nodes (sim_state sim') = failed_nodes st1"
    unfolding update_system_state_def
    by (auto simp: Let_def split: option.splits sum.splits prod.splits)
  with inv1 show ?thesis by (simp add: node_sets_partitioned_def)
qed

lemma tick_partition:
  assumes "tick inp sim = Inr sim'" "node_sets_partitioned (sim_state sim)"
  shows "node_sets_partitioned (sim_state sim')"
proof -
  let ?sim1 = "sim\<lparr>sim_state := (sim_state sim)\<lparr>current_time := ti_time inp\<rparr>\<rparr>"
  let ?sim2 = "process_requests (ti_requests inp) ?sim1"
  have "node_sets_partitioned (sim_state ?sim2)"
    using assms(2) process_requests_sets[of "ti_requests inp" ?sim1]
    by (simp add: node_sets_partitioned_def)
  moreover obtain sim3 where "update_system_state ?sim2 (ti_time inp) (ti_env inp) = Inr sim3"
    and "sim' = record_performance_metrics sim3"
    using assms(1) by (auto simp: tick_def Let_def split: sum.splits)
  ultimately show ?thesis
    using update_system_state_partition
    by (auto simp: record_performance_metrics_def node_sets_partitioned_def)
qed

lemma run_ticks_partition:
  assumes "run_ticks inps sim = Inr sim'" "node_sets_partitioned (sim_state sim)"
  shows "node_sets_partitioned (sim_state sim')"
  using assms
proof (induction inps arbitrary: sim)
  case Nil
  then show ?case by simp
next
  case (Cons inp inps)
  then obtain sim1 where t: "tick inp sim = Inr sim1" and r: "run_ticks inps sim1 = Inr sim'"
    by (auto split: sum.splits)
  from tick_partition[OF t Cons.prems(2)] Cons.IH[OF r] show ?case by simp
qed

lemma new_simulation_partition:
  assumes "new_simulation config t0 = Inr sim"
  shows "node_sets_partitioned (sim_state sim)"
  using assms
  by (auto simp: new_simulation_def initial_state_def node_sets_partitioned_def split: sum.splits)

lemma calculate_destination_score_ok:
  assumes "latencies_nonzero st"
  shows "\<exists>x. calculate_destination_score sid src dst st = Inr x"
  using assms
  by (auto simp: calculate_destination_score_def latencies_nonzero_def Let_def split: option.splits)

lemma best_destination_loop_ok:
  assumes "latencies_nonzero st"
  shows "\<exists>x. best_destination_loop ds sid src st best = Inr x"
proof (induction ds arbitrary: best)
  case Nil
  then show ?case by simp
next
  case (Cons d ds)
  obtain x where "calculate_destination_score sid src d st = Inr x"
    using calculate_destination_score_ok[OF assms] by blast
  then show ?case using Cons.IH by simp
qed

lemma find_best_destination_ok:
  assumes "latencies_nonzero st"
  shows "\<exists>x. find_best_destination sid src us st = Inr x"
  using best_destination_loop_ok[OF assms] by (simp add: find_best_destination_def)

lemma decisions_for_services_ok:
  assumes "latencies_nonzero st"
  shows "\<exists>x. decisions_for_services sids eng src us st = Inr x"
proof (induction sids)
  case Nil
  then show ?case by simp
next
  case (Cons sid sids)
  obtain b where "find_best_destination sid src us st = Inr b"
    using find_best_destination_ok[OF assms] by blast
  then show ?case using Cons.IH by (cases b) (auto simp: Let_def)
qed

lemma generate_migration_decisions_ok:
  assumes "latencies_nonzero st"
  shows "\<exists>x. generate_migration_decisions eng st srcs us now = Inr x"
proof (induction srcs)
  case Nil
  then show ?case by simp
next
  case (Cons src srcs)
  obtain ds where "decisions_for_services (find_migratable_services eng src st now) eng src us st
      = Inr ds"
    using decisions_for_services_ok[OF assms] by blast
  then show ?case using Cons.IH by auto
qed

lemma evaluate_migrations_ok:
  assumes "latencies_nonzero st"
  shows "\<exists>x. evaluate_migrations eng st ord now ht r = Inr x"
proof -
  obtain ds where "generate_migration_decisions (update_performance_history eng st ht) st
      (identify_overloaded_nodes ord st) (identify_underloaded_nodes ord st) now = Inr ds"
    using generate_migration_decisions_ok[OF assms] by blast
  then show ?thesis
    by (simp add: evaluate_migrations_def Let_def) (metis prod_cases3)
qed


lemma process_service_request_metrics [simp]:
  "node_metrics (sim_state (snd (process_service_request sim env rq))) = node_metrics (sim_state sim)"
  by (simp add: process_service_request_def Let_def split: sum.splits option.splits)

lemma process_requests_metrics [simp]:
  "node_metrics (sim_state (process_requests rs sim)) = node_metrics (sim_state sim)"
  by (induction rs arbitrary: sim) auto

lemma apply_migrations_metrics [simp]:
  "node_metrics (apply_migrations ms st) = node_metrics st"
  by (induction ms arbitrary: st) simp_all

lemma failure_phase_cases:
  obtains st1 fi1 r1 where
    "(case failure_injector sim of
        None \<Rightarrow> (sim_state sim, None, te_rng env)
      | Some fi \<Rightarrow>
          let (new_failures, fi', r') = inject_failures fi now (sim_state sim) (te_rng env);
              (fs', active', failed') =
                update_failed_nodes now (active_failures (sim_state sim) @ new_failures)
                  (active_nodes (sim_state sim)) (failed_nodes (sim_state sim))
          in ((sim_state sim)\<lparr>active_failures := fs', active_nodes := active',
                 failed_nodes := failed'\<rparr>, Some fi', r')) = (st1, fi1, r1)"
    "node_metrics st1 = node_metrics (sim_state sim)"
proof (cases "failure_injector sim")
  case None
  then show ?thesis using that by simp
next
  case (Some fi)
  obtain nf fi' r' where i: "inject_failures fi now (sim_state sim) (te_rng env) = (nf, fi', r')"
    by (metis prod_cases3)
  obtain fs' A' F' where u:
    "update_failed_nodes now (active_failures (sim_state sim) @ nf)
       (active_nodes (sim_state sim)) (failed_nodes (sim_state sim)) = (fs', A', F')"
    by (metis prod_cases3)
  show ?thesis using that[of "(sim_state sim)\<lparr>active_failures := fs', active_nodes := A',
                 failed_nodes := F'\<rparr>" "Some fi'" r'] Some i u by simp
qed

lemma update_system_state_ok:
  assumes "latencies_nonzero (sim_state sim)"
  shows "\<exists>sim'. update_system_state sim now env = Inr sim'
           \<and> node_metrics (sim_state sim') = node_metrics (sim_state sim)"
proof -
  obtain st1 fi1 r1 where p1:
    "(case failure_injector sim of
        None \<Rightarrow> (sim_state sim, None, te_rng env)
      | Some fi \<Rightarrow>
          let (new_failures, fi', r') = inject_failures fi now (sim_state sim) (te_rng env);
              (fs', active', failed') =
                update_failed_nodes now (active_failures (sim_state sim) @ new_failures)
                  (active_nodes (sim_state sim)) (failed_nodes (sim_state sim))
          in ((sim_state sim)\<lparr>active_failures := fs', active_nodes := active',
                 failed_nodes := failed'\<rparr>, Some fi', r')) = (st1, fi1, r1)"
    and m1: "node_metrics st1 = node_metrics (sim_state sim)"
    by (rule failure_phase_cases)
  have l1: "latencies_nonzero st1" using assms m1 by (simp add: latencies_nonzero_def)
  show ?thesis
  proof (cases "adaptive_migration_engine sim")
    case None
    then show ?thesis using p1 m1
      by (simp add: update_system_state_def Let_def update_load_balance_index_def)
  next
    case (Some eng)
    obtain migs eng' r2 where
      "evaluate_migrations eng st1 (te_ord env) (te_migration_clock env)
         (te_history_clock env) r1 = Inr (migs, eng', r2)"
      using evaluate_migrations_ok[OF l1] by (metis prod_cases3)
    then show ?thesis using p1 m1 Some
      by (simp add: update_system_state_def Let_def update_load_balance_index_def)
  qed
qed

lemma tick_ok:
  assumes "latencies_nonzero (sim_state sim)"
  shows "\<exists>sim'. tick inp sim = Inr sim' \<and> latencies_nonzero (sim_state sim')"
proof -
  let ?sim2 = "process_requests (ti_requests inp)
                 (sim\<lparr>sim_state := (sim_state sim)\<lparr>current_time := ti_time inp\<rparr>\<rparr>)"
  have "latencies_nonzero (sim_state ?sim2)" using assms by (simp add: latencies_nonzero_def)
  from update_system_state_ok[OF this, of "ti_time inp" "ti_env inp"]
  obtain sim3 where "update_system_state ?sim2 (ti_time inp) (ti_env inp) = Inr sim3"
    and "node_metrics (sim_state sim3) = node_metrics (sim_state ?sim2)" by blast
  then show ?thesis using assms
    by (simp add: tick_def Let_def record_performance_metrics_def latencies_nonzero_def)
qed

lemma run_ticks_ok:
  assumes "latencies_nonzero (sim_state sim)"
  shows "\<exists>sim'. run_ticks inps sim = Inr sim'"
  using assms
proof (induction inps arbitrary: sim)
  case Nil
  then show ?case by simp
next
  case (Cons inp inps)
  from tick_ok[OF Cons.prems, of inp] obtain sim1 where
    "tick inp sim = Inr sim1" "latencies_nonzero (sim_state sim1)" by blast
  then show ?case using Cons.IH[of sim1] by simp
qed

lemma new_simulation_latencies:
  assumes "new_simulation config t0 = Inr sim"
  shows "latencies_nonzero (sim_state sim)"
proof -
  have nz: "\<not> list_ex (\<lambda>node. case node_baseline_metrics config node of None \<Rightarrow> False
              | Some m \<Rightarrow> latency m = 0) all_nodes"
    using assms
    by (auto simp: new_simulation_def initialize_node_weights_def split: sum.splits if_splits)
  have "\<And>n m. node_baseline_metrics config n = Some m \<Longrightarrow> latency m \<noteq> 0"
  proof -
    fix n m assume a: "node_baseline_metrics config n = Some m"
    have "n \<in> set all_nodes" by (simp add: all_nodes_UNIV)
    with nz a show "latency m \<noteq> 0" by (auto simp: list_ex_iff)
  qed
  moreover have "node_metrics (sim_state sim) = node_baseline_metrics config"
    using assms
    by (auto simp: new_simulation_def initial_state_def split: sum.splits)
  ultimately show ?thesis by (simp add: latencies_nonzero_def)
qed

text \<open>
  Claim C5. From the state built by the constructor, the tick loop never stops with
  an exception, and at every tick boundary (the initial state, for the empty list of
  ticks, and the state after each execution of \<open>_update_system_state\<close>)
  \<open>active_nodes\<close> and \<open>failed_nodes\<close> are disjoint and their union is the set of
  all five nodes.
\<close>

theorem node_sets_partition_every_tick:
  assumes "new_simulation config t0 = Inr sim0"
  shows "\<exists>sim. run_ticks inps sim0 = Inr sim
           \<and> active_nodes (sim_state sim) \<inter> failed_nodes (sim_state sim) = {}
           \<and> active_nodes (sim_state sim) \<union> failed_nodes (sim_state sim) = set all_nodes"
proof -
  obtain sim where r: "run_ticks inps sim0 = Inr sim"
    using run_ticks_ok[OF new_simulation_latencies[OF assms]] by blast
  from run_ticks_partition[OF r new_simulation_partition[OF assms]] r
  show ?thesis by (auto simp: node_sets_partitioned_def)
qed

subsection \<open>The window of an injected failure\<close>

lemma ufn_in_window:
  assumes "update_failed_nodes now fs A F = (fs', A', F')"
    and "\<forall>g \<in> set fs. fs_node_id g = n \<longrightarrow> fs_start_time g = T \<and> fs_duration g = d"
    and "T \<le> now" "now \<le> T + d"
  shows "(n \<in> F' \<longleftrightarrow> n \<in> F \<or> n \<in> fs_node_id ` set fs)
       \<and> (n \<in> A' \<longleftrightarrow> n \<in> A \<and> n \<notin> fs_node_id ` set fs)"
  using assms(1,2)
proof (induction fs arbitrary: A F fs' A' F')
  case Nil
  then show ?case by simp
next
  case (Cons g fs)
  let ?m = "fs_node_id g"
  show ?case
  proof (cases "fs_start_time g \<le> now \<and> now \<le> fs_start_time g + fs_duration g")
    case True
    obtain fs1 A1 F1 where r: "update_failed_nodes now fs (A - {?m}) (insert ?m F) = (fs1, A1, F1)"
      by (metis prod_cases3)
    have eq: "(if ?m \<in> A then A - {?m} else A) = A - {?m}" by auto
    from Cons.prems(1) True r eq have e: "A' = A1" "F' = F1" by (simp_all add: Let_def)
    from Cons.IH[OF r] Cons.prems(2) show ?thesis unfolding e by auto
  next
    case False
    then have ne: "?m \<noteq> n" using Cons.prems(2) assms(3,4) by auto
    show ?thesis
    proof (cases "now > fs_start_time g + fs_duration g \<and> ?m \<in> F")
      case True
      obtain fs1 A1 F1 where r: "update_failed_nodes now fs (insert ?m A) (F - {?m}) = (fs1, A1, F1)"
        by (metis prod_cases3)
      from Cons.prems(1) False True r have e: "A' = A1" "F' = F1" by (simp_all add: Let_def)
      from Cons.IH[OF r] Cons.prems(2) ne show ?thesis unfolding e by auto
    next
      case F2: False
      obtain fs1 A1 F1 where r: "update_failed_nodes now fs A F = (fs1, A1, F1)"
        by (metis prod_cases3)
      from Cons.prems(1) False F2 r have e: "A' = A1" "F' = F1"
        by (auto simp: Let_def split: if_splits)
      from Cons.IH[OF r] Cons.prems(2) ne show ?thesis unfolding e by auto
    qed
  qed
qed

lemma ufn_after_window:
  assumes "update_failed_nodes now fs A F = (fs', A', F')"
    and "\<forall>g \<in> set fs. fs_node_id g = n \<longrightarrow> fs_start_time g = T \<and> fs_duration g = d"
    and "now > T + d" "0 \<le> d"
  shows "(n \<in> F' \<longleftrightarrow> n \<in> F \<and> n \<notin> fs_node_id ` set fs)
       \<and> (n \<in> A' \<longleftrightarrow> n \<in> A \<or> (n \<in> F \<and> n \<in> fs_node_id ` set fs))"
  using assms(1,2)
proof (induction fs arbitrary: A F fs' A' F')
  case Nil
  then show ?case by simp
next
  case (Cons g fs)
  let ?m = "fs_node_id g"
  show ?case
  proof (cases "fs_start_time g \<le> now \<and> now \<le> fs_start_time g + fs_duration g")
    case True
    then have ne: "?m \<noteq> n" using Cons.prems(2) assms(3,4) by auto
    obtain fs1 A1 F1 where r: "update_failed_nodes now fs (A - {?m}) (insert ?m F) = (fs1, A1, F1)"
      by (metis prod_cases3)
    have eq: "(if ?m \<in> A then A - {?m} else A) = A - {?m}" by auto
    from Cons.prems(1) True r eq have e: "A' = A1" "F' = F1" by (simp_all add: Let_def)
    from Cons.IH[OF r] Cons.prems(2) ne show ?thesis unfolding e by auto
  next
    case False
    show ?thesis
    proof (cases "now > fs_start_time g + fs_duration g \<and> ?m \<in> F")
      case True
      obtain fs1 A1 F1 where r: "update_failed_nodes now fs (insert ?m A) (F - {?m}) = (fs1, A1, F1)"
        by (metis prod_cases3)
      from Cons.prems(1) False True r have e: "A' = A1" "F' = F1" by (simp_all add: Let_def)
      from Cons.IH[OF r] Cons.prems(2) True show ?thesis unfolding e by auto
    next
      case F2: False
      obtain fs1 A1 F1 where r: "update_failed_nodes now fs A F = (fs1, A1, F1)"
        by (metis prod_cases3)
      from Cons.prems(1) False F2 r have e: "A' = A1" "F' = F1"
        by (auto simp: Let_def split: if_splits)
      have "?m = n \<Longrightarrow> n \<notin> F" using F2 Cons.prems(2) assms(3) by auto
      with Cons.IH[OF r] Cons.prems(2) show ?thesis unfolding e by auto
    qed
  qed
qed

lemma ufn_before_window:
  assumes "update_failed_nodes now fs A F = (fs', A', F')"
    and "\<forall>g \<in> set fs. fs_node_id g = n \<longrightarrow> fs_start_time g = T \<and> fs_duration g = d"
    and "now < T" "0 \<le> d"
  shows "(n \<in> F' \<longleftrightarrow> n \<in> F) \<and> (n \<in> A' \<longleftrightarrow> n \<in> A)"
  using assms(1,2)
proof (induction fs arbitrary: A F fs' A' F')
  case Nil
  then show ?case by simp
next
  case (Cons g fs)
  let ?m = "fs_node_id g"
  show ?case
  proof (cases "fs_start_time g \<le> now \<and> now \<le> fs_start_time g + fs_duration g")
    case True
    then have ne: "?m \<noteq> n" using Cons.prems(2) assms(3,4) by auto
    obtain fs1 A1 F1 where r: "update_failed_nodes now fs (A - {?m}) (insert ?m F) = (fs1, A1, F1)"
      by (metis prod_cases3)
    have eq: "(if ?m \<in> A then A - {?m} else A) = A - {?m}" by auto
    from Cons.prems(1) True r eq have e: "A' = A1" "F' = F1" by (simp_all add: Let_def)
    from Cons.IH[OF r] Cons.prems(2) ne show ?thesis unfolding e by auto
  next
    case False
    show ?thesis
    proof (cases "now > fs_start_time g + fs_duration g \<and> ?m \<in> F")
      case True
      then have ne: "?m \<noteq> n" using Cons.prems(2) assms(3,4) by auto
      obtain fs1 A1 F1 where r: "update_failed_nodes now fs (insert ?m A) (F - {?m}) = (fs1, A1, F1)"
        by (metis prod_cases3)
      from Cons.prems(1) False True r have e: "A' = A1" "F' = F1" by (simp_all add: Let_def)
      from Cons.IH[OF r] Cons.prems(2) ne show ?thesis unfolding e by auto
    next
      case F2: False
      obtain fs1 A1 F1 where r: "update_failed_nodes now fs A F = (fs1, A1, F1)"
        by (metis prod_cases3)
      from Cons.prems(1) False F2 r have e: "A' = A1" "F' = F1"
        by (auto simp: Let_def split: if_splits)
      from Cons.IH[OF r] Cons.prems(2) show ?thesis unfolding e by auto
    qed
  qed
qed

lemma ufn_recovery_stamp:
  assumes "update_failed_nodes now fs A F = (fs', A', F')"
    and "\<forall>g \<in> set fs. fs_node_id g = n \<longrightarrow> fs_start_time g = T \<and> fs_duration g = d"
    and "now > T + d" "0 \<le> d"
    and "find (\<lambda>g. fs_node_id g = n) fs = Some f"
  shows "find (\<lambda>g. fs_node_id g = n) fs'
           = Some (if n \<in> F then f\<lparr>fs_recovery_time := Some now\<rparr> else f)"
  using assms(1,2,5)
proof (induction fs arbitrary: A F fs' A' F')
  case Nil
  then show ?case by simp
next
  case (Cons g fs)
  let ?m = "fs_node_id g"
  show ?case
  proof (cases "?m = n")
    case True
    then have gf: "g = f" using Cons.prems(3) by simp
    have nw: "\<not> (fs_start_time g \<le> now \<and> now \<le> fs_start_time g + fs_duration g)"
      and aft: "now > fs_start_time g + fs_duration g"
      using True Cons.prems(2) assms(3,4) by auto
    show ?thesis
    proof (cases "n \<in> F")
      case T2: True
      obtain fs1 A1 F1 where r: "update_failed_nodes now fs (insert ?m A) (F - {?m}) = (fs1, A1, F1)"
        by (metis prod_cases3)
      from Cons.prems(1) nw aft T2 True r have "fs' = g\<lparr>fs_recovery_time := Some now\<rparr> # fs1"
        by (simp add: Let_def)
      then show ?thesis using True T2 gf by simp
    next
      case F2: False
      obtain fs1 A1 F1 where r: "update_failed_nodes now fs A F = (fs1, A1, F1)"
        by (metis prod_cases3)
      from Cons.prems(1) nw aft F2 True r have "fs' = g # fs1"
        by (simp add: Let_def)
      then show ?thesis using True F2 gf by simp
    qed
  next
    case False
    then have fnd: "find (\<lambda>g. fs_node_id g = n) fs = Some f" using Cons.prems(3) by simp
    have sw: "\<forall>g \<in> set fs. fs_node_id g = n \<longrightarrow> fs_start_time g = T \<and> fs_duration g = d"
      using Cons.prems(2) by simp
    show ?thesis
    proof (cases "fs_start_time g \<le> now \<and> now \<le> fs_start_time g + fs_duration g")
      case True
      obtain fs1 A1 F1 where r: "update_failed_nodes now fs (A - {?m}) (insert ?m F) = (fs1, A1, F1)"
        by (metis prod_cases3)
      have eq: "(if ?m \<in> A then A - {?m} else A) = A - {?m}" by auto
      from Cons.prems(1) True r eq have e: "fs' = g # fs1" by (simp add: Let_def)
      from Cons.IH[OF r sw fnd] False show ?thesis unfolding e by auto
    next
      case W: False
      show ?thesis
      proof (cases "now > fs_start_time g + fs_duration g \<and> ?m \<in> F")
        case True
        obtain fs1 A1 F1 where r: "update_failed_nodes now fs (insert ?m A) (F - {?m}) = (fs1, A1, F1)"
          by (metis prod_cases3)
        from Cons.prems(1) W True r have e: "fs' = g\<lparr>fs_recovery_time := Some now\<rparr> # fs1"
          by (simp add: Let_def)
        from Cons.IH[OF r sw fnd] False show ?thesis unfolding e by auto
      next
        case F2: False
        obtain fs1 A1 F1 where r: "update_failed_nodes now fs A F = (fs1, A1, F1)"
          by (metis prod_cases3)
        from Cons.prems(1) W F2 r have e: "fs' = g # fs1"
          by (auto simp: Let_def split: if_splits)
        from Cons.IH[OF r sw fnd] False show ?thesis unfolding e by auto
      qed
    qed
  qed
qed

lemma apply_migrations_failures [simp]:
  "active_failures (apply_migrations ms st) = active_failures st"
  by (induction ms arbitrary: st) simp_all

lemma update_system_state_failure_loop:
  assumes "failure_injector sim = Some fi"
    and "update_failed_nodes now
           (active_failures (sim_state sim)
              @ fst (inject_failures fi now (sim_state sim) (te_rng env)))
           (active_nodes (sim_state sim)) (failed_nodes (sim_state sim)) = (fs', A', F')"
    and "update_system_state sim now env = Inr sim'"
  shows "active_failures (sim_state sim') = fs' \<and> active_nodes (sim_state sim') = A'
         \<and> failed_nodes (sim_state sim') = F'"
  using assms unfolding update_system_state_def
  by (auto simp: Let_def update_load_balance_index_def split: option.splits sum.splits prod.splits)

text \<open>
  Claim C4, as amended. Let a scenario with start \<open>T\<close> and duration 10 be in
  \<open>active_failures\<close> and be the only scenario of its node, in a state whose node
  sets partition the nodes, with failure injection enabled. After
  \<open>_update_system_state\<close> at time \<open>now\<close>: for \<open>T \<le> now \<le> T + 10\<close>, both ends
  included, the node is in \<open>failed_nodes\<close> and not in \<open>active_nodes\<close>; for
  \<open>now > T + 10\<close> the node is in \<open>active_nodes\<close> and not in \<open>failed_nodes\<close>, and
  the scenario's recovery time is \<open>now\<close> if the node was in \<open>failed_nodes\<close> before
  this update and is left as it was otherwise; for \<open>now < T\<close> the node stays in the
  set it was in.
\<close>

theorem injected_failure_window:
  assumes inj: "failure_injector sim = Some fi"
    and mem: "f \<in> set (active_failures (sim_state sim))"
    and only: "\<forall>g \<in> set (active_failures (sim_state sim)
                          @ fst (inject_failures fi now (sim_state sim) (te_rng env))).
                 fs_node_id g = fs_node_id f \<longrightarrow> g = f"
    and dur: "fs_duration f = 10"
    and part: "node_sets_partitioned (sim_state sim)"
    and upd: "update_system_state sim now env = Inr sim'"
  shows "(fs_start_time f \<le> now \<and> now \<le> fs_start_time f + 10 \<longrightarrow>
            fs_node_id f \<in> failed_nodes (sim_state sim')
            \<and> fs_node_id f \<notin> active_nodes (sim_state sim'))
       \<and> (now > fs_start_time f + 10 \<longrightarrow>
            fs_node_id f \<in> active_nodes (sim_state sim')
            \<and> fs_node_id f \<notin> failed_nodes (sim_state sim')
            \<and> find (\<lambda>g. fs_node_id g = fs_node_id f) (active_failures (sim_state sim'))
                = Some (if fs_node_id f \<in> failed_nodes (sim_state sim)
                        then f\<lparr>fs_recovery_time := Some now\<rparr> else f))
       \<and> (now < fs_start_time f \<longrightarrow>
            (fs_node_id f \<in> failed_nodes (sim_state sim')
               \<longleftrightarrow> fs_node_id f \<in> failed_nodes (sim_state sim))
            \<and> (fs_node_id f \<in> active_nodes (sim_state sim')
               \<longleftrightarrow> fs_node_id f \<in> active_nodes (sim_state sim)))"
proof -
  let ?st = "sim_state sim"
  let ?n = "fs_node_id f"
  let ?fs = "active_failures ?st @ fst (inject_failures fi now ?st (te_rng env))"
  obtain fs' A' F' where u:
    "update_failed_nodes now ?fs (active_nodes ?st) (failed_nodes ?st) = (fs', A', F')"
    by (metis prod_cases3)
  from update_system_state_failure_loop[OF inj u upd]
  have e: "active_failures (sim_state sim') = fs'" "active_nodes (sim_state sim') = A'"
    "failed_nodes (sim_state sim') = F'" by simp_all
  have sw: "\<forall>g \<in> set ?fs. fs_node_id g = ?n \<longrightarrow>
              fs_start_time g = fs_start_time f \<and> fs_duration g = 10"
    using only dur by auto
  have inl: "?n \<in> fs_node_id ` set ?fs" using mem by auto
  have fnd: "find (\<lambda>g. fs_node_id g = ?n) ?fs = Some f"
  proof (cases "find (\<lambda>g. fs_node_id g = ?n) ?fs")
    case None
    then show ?thesis using mem by (auto simp: find_None_iff)
  next
    case (Some g)
    then obtain i where "i < length ?fs" "fs_node_id (?fs ! i) = ?n" "g = ?fs ! i"
      unfolding find_Some_iff by blast
    then have "g \<in> set ?fs \<and> fs_node_id g = ?n"
      using nth_mem[of i ?fs] by simp
    then show ?thesis using only Some by auto
  qed
  have un: "?n \<in> active_nodes ?st \<or> ?n \<in> failed_nodes ?st"
    using part by (auto simp: node_sets_partitioned_def all_nodes_UNIV)
  have dj: "\<not> (?n \<in> active_nodes ?st \<and> ?n \<in> failed_nodes ?st)"
    using part by (auto simp: node_sets_partitioned_def)
  have a: "fs_start_time f \<le> now \<and> now \<le> fs_start_time f + 10 \<longrightarrow> ?n \<in> F' \<and> ?n \<notin> A'"
    using ufn_in_window[OF u sw] inl by blast
  have b: "now > fs_start_time f + 10 \<longrightarrow> ?n \<in> A' \<and> ?n \<notin> F'
      \<and> find (\<lambda>g. fs_node_id g = ?n) fs'
            = Some (if ?n \<in> failed_nodes ?st then f\<lparr>fs_recovery_time := Some now\<rparr> else f)"
  proof
    assume h: "now > fs_start_time f + 10"
    from ufn_after_window[OF u sw h] inl un
    have "?n \<in> A' \<and> ?n \<notin> F'" by auto
    moreover from ufn_recovery_stamp[OF u sw h _ fnd]
    have "find (\<lambda>g. fs_node_id g = ?n) fs'
            = Some (if ?n \<in> failed_nodes ?st then f\<lparr>fs_recovery_time := Some now\<rparr> else f)"
      by simp
    ultimately show "?n \<in> A' \<and> ?n \<notin> F'
      \<and> find (\<lambda>g. fs_node_id g = ?n) fs'
            = Some (if ?n \<in> failed_nodes ?st then f\<lparr>fs_recovery_time := Some now\<rparr> else f)"
      by blast
  qed
  have c: "now < fs_start_time f \<longrightarrow>
      (?n \<in> F' \<longleftrightarrow> ?n \<in> failed_nodes ?st) \<and> (?n \<in> A' \<longleftrightarrow> ?n \<in> active_nodes ?st)"
    using ufn_before_window[OF u sw] by simp
  show ?thesis unfolding e using a b c by blast
qed

lemmas eval_defs = update_system_state_def demo_failure_sim_def quiet_env_def new_simulation_def demo_config_def initialize_node_weights_def
       default_node_baseline_metrics_def all_nodes_def inject_specific_failure_def demo_injection_def demo_failed_sim_def new_failure_injector_def
       initial_state_def inject_failures_def should_inject_failure_def py_random_def calculate_load_factor_def
       Let_def network_partition_probability_def evaluate_migrations_def new_migration_engine_def
       max_concurrent_migrations_def update_performance_history_def identify_overloaded_nodes_def
       identify_underloaded_nodes_def iter_set_def is_overloaded_def is_underloaded_def
       update_load_balance_index_def node_sets_partitioned_def




lemma demo_injection_facts:
  "fs_node_id (fst demo_injection) = EDGE1"
  "fs_start_time (fst demo_injection) = 100"
  "fs_duration (fst demo_injection) = 10"
  "fs_recovery_time (fst demo_injection) = None"
  by (simp_all add: demo_injection_def inject_specific_failure_def Let_def)

lemma demo_failure_sim_facts:
  "failure_injector demo_failure_sim = Some (snd demo_injection)"
  "active_failures (sim_state demo_failure_sim) = [fst demo_injection]"
  "node_sets_partitioned (sim_state demo_failure_sim)"
  by (simp_all add: demo_failure_sim_def new_simulation_def demo_config_def
        initialize_node_weights_def default_node_baseline_metrics_def all_nodes_def
        initial_state_def node_sets_partitioned_def)

lemma demo_failed_sim_facts:
  "failure_injector demo_failed_sim = Some (snd demo_injection)"
  "active_failures (sim_state demo_failed_sim) = [fst demo_injection]"
  "node_sets_partitioned (sim_state demo_failed_sim)"
  "EDGE1 \<in> failed_nodes (sim_state demo_failed_sim)"
  by (auto simp add: demo_failed_sim_def demo_failure_sim_def new_simulation_def demo_config_def
        initialize_node_weights_def default_node_baseline_metrics_def all_nodes_def
        initial_state_def node_sets_partitioned_def)

lemma quiet_injection:
  "fst (inject_failures (snd demo_injection) 105 (sim_state demo_failure_sim)
          (te_rng quiet_env)) = []"
  "fst (inject_failures (snd demo_injection) 111 (sim_state demo_failed_sim)
          (te_rng quiet_env)) = []"
  by (simp_all add: eval_defs)

lemma demo_new_simulation:
  "new_simulation demo_config 100 = Inr (projr (new_simulation demo_config 100))"
  by (simp add: new_simulation_def demo_config_def initialize_node_weights_def
        default_node_baseline_metrics_def all_nodes_def)

lemma demo_latencies:
  "latencies_nonzero (sim_state demo_failure_sim)"
  "latencies_nonzero (sim_state demo_failed_sim)"
  using new_simulation_latencies[OF demo_new_simulation]
  by (simp_all add: latencies_nonzero_def demo_failure_sim_def demo_failed_sim_def Let_def)

lemma quiet_updates_return:
  "update_system_state demo_failure_sim 105 quiet_env
     = Inr (projr (update_system_state demo_failure_sim 105 quiet_env))"
  "update_system_state demo_failed_sim 111 quiet_env
     = Inr (projr (update_system_state demo_failed_sim 111 quiet_env))"
  using update_system_state_ok[OF demo_latencies(1), of 105 quiet_env]
    update_system_state_ok[OF demo_latencies(2), of 111 quiet_env]
  by auto

text \<open>
  The demo failure (start 100, duration 10): the update at time 105 puts EDGE1 into
  \<open>failed_nodes\<close>; from the state with EDGE1 failed, the update at time 111 returns
  it to \<open>active_nodes\<close> and stamps recovery time 111.
\<close>

theorem injected_failure_window_witness:
  "EDGE1 \<in> failed_nodes (sim_state (projr (update_system_state demo_failure_sim 105 quiet_env)))
   \<and> EDGE1 \<in> active_nodes (sim_state (projr (update_system_state demo_failed_sim 111 quiet_env)))
   \<and> find (\<lambda>g. fs_node_id g = EDGE1)
         (active_failures (sim_state (projr (update_system_state demo_failed_sim 111 quiet_env))))
       = Some ((fst demo_injection)\<lparr>fs_recovery_time := Some 111\<rparr>)"
  using injected_failure_window
     [OF demo_failure_sim_facts(1) _ _ demo_injection_facts(3) demo_failure_sim_facts(3)
         quiet_updates_return(1)]
    injected_failure_window
     [OF demo_failed_sim_facts(1) _ _ demo_injection_facts(3) demo_failed_sim_facts(3)
         quiet_updates_return(2)]
  by (simp add: demo_failure_sim_facts(2) demo_failed_sim_facts(2,4) quiet_injection
        demo_injection_facts)

text \<open>
  The claim as stated fails at \<open>now = T + 10\<close>: the update at time 110 returns and
  leaves EDGE1 in \<open>failed_nodes\<close>, not in \<open>active_nodes\<close>.
\<close>

theorem failed_at_window_end:
  "\<not> isl (update_system_state demo_failure_sim 110 quiet_env)
   \<and> EDGE1 \<in> failed_nodes (sim_state (projr (update_system_state demo_failure_sim 110 quiet_env)))
   \<and> EDGE1 \<notin> active_nodes (sim_state (projr (update_system_state demo_failure_sim 110 quiet_env)))"
  by (simp add: eval_defs)

text \<open>
  For the demo configuration the constructor succeeds; two ticks, the first with
  random draws that inject a failure on every node.
\<close>

theorem node_sets_partition_every_tick_witness:
  "\<exists>sim. run_ticks
           [\<lparr>ti_time = 1000, ti_requests = [],
             ti_env = \<lparr>te_ord = all_nodes, te_migration_clock = 1000,
                        te_history_clock = 1000, te_rng = sconst 0\<rparr>\<rparr>,
            \<lparr>ti_time = 1001, ti_requests = [], ti_env = quiet_env\<rparr>]
           (projr (new_simulation demo_config 100)) = Inr sim
         \<and> active_nodes (sim_state sim) \<inter> failed_nodes (sim_state sim) = {}
         \<and> active_nodes (sim_state sim) \<union> failed_nodes (sim_state sim) = set all_nodes"
  using node_sets_partition_every_tick[OF demo_new_simulation] .

subsection \<open>Cascading failures\<close>

lemma rng_ok_stl: "rng_ok r \<Longrightarrow> rng_ok (stl r)"
  unfolding rng_ok_def using stl_sset by fastforce

lemma rng_ok_shd: "rng_ok r \<Longrightarrow> 0 \<le> shd r \<and> shd r < 1"
  unfolding rng_ok_def using shd_sset by blast

lemma cascade_dependents_props:
  assumes "cascade_dependents ds failure initial now st r = (cs, r')" "rng_ok r"
  shows "rng_ok r' \<and> (\<forall>c \<in> set cs. fs_node_id c \<in> set ds
           \<and> now + 5 \<le> fs_start_time c \<and> fs_start_time c < now + 30
           \<and> fs_duration c = fs_duration failure * (7 / 10)
           \<and> fs_severity c = fs_severity failure * (6 / 10))"
  using assms
proof (induction ds arbitrary: cs r r')
  case Nil
  then show ?case by simp
next
  case (Cons d ds)
  show ?case
  proof (cases "d \<notin> failed_nodes st \<and> d \<notin> set (map fs_node_id initial)")
    case True
    obtain rest r2 where rec: "cascade_dependents ds failure initial now st (stl r) = (rest, r2)"
      by (metis surj_pair)
    from Cons.prems(1) True rec have cs: "cs = \<lparr>fs_node_id = d,
               fs_failure_type = fp_failure_type (failure_profiles d),
               fs_start_time = now + (5 + (30 - 5) * shd r),
               fs_duration = fs_duration failure * (7 / 10),
               fs_severity = fs_severity failure * (6 / 10),
               fs_recovery_time = None\<rparr> # rest" and r': "r' = r2"
      by (simp_all add: py_uniform_def Let_def)
    from Cons.IH[OF rec rng_ok_stl[OF Cons.prems(2)]] rng_ok_shd[OF Cons.prems(2)]
    show ?thesis unfolding cs r' by auto
  next
    case False
    then have "cascade_dependents ds failure initial now st r = (cs, r')"
      using Cons.prems(1) by auto
    from Cons.IH[OF this Cons.prems(2)] show ?thesis by auto
  qed
qed

lemma cascade_triggers_props:
  assumes "cascade_triggers fs initial now st r = (cs, r')" "rng_ok r"
  shows "rng_ok r' \<and> (\<forall>c \<in> set cs. \<exists>t \<in> set fs.
             fs_node_id c \<in> set (get_dependent_nodes (fs_node_id t))
           \<and> now + 5 \<le> fs_start_time c \<and> fs_start_time c < now + 30
           \<and> fs_duration c = fs_duration t * (7 / 10)
           \<and> fs_severity c = fs_severity t * (6 / 10))"
  using assms
proof (induction fs arbitrary: cs r r')
  case Nil
  then show ?case by simp
next
  case (Cons f fs)
  have ok1: "rng_ok (stl r)" by (rule rng_ok_stl[OF Cons.prems(2)])
  show ?case
  proof (cases "shd r < cascading_failure_probability")
    case True
    obtain cs1 r2 where d: "cascade_dependents (get_dependent_nodes (fs_node_id f)) f initial
        now st (stl r) = (cs1, r2)" by (metis surj_pair)
    obtain rest r3 where rec: "cascade_triggers fs initial now st r2 = (rest, r3)"
      by (metis surj_pair)
    from Cons.prems(1) True d rec have cs: "cs = cs1 @ rest" and r': "r' = r3"
      by (simp_all add: py_random_def Let_def)
    from cascade_dependents_props[OF d ok1] have p1: "rng_ok r2"
      and p2: "\<forall>c \<in> set cs1. fs_node_id c \<in> set (get_dependent_nodes (fs_node_id f))
           \<and> now + 5 \<le> fs_start_time c \<and> fs_start_time c < now + 30
           \<and> fs_duration c = fs_duration f * (7 / 10)
           \<and> fs_severity c = fs_severity f * (6 / 10)" by simp_all
    from Cons.IH[OF rec p1] p2 show ?thesis unfolding cs r' by auto
  next
    case False
    then have "cascade_triggers fs initial now st (stl r) = (cs, r')"
      using Cons.prems(1) by (simp add: py_random_def Let_def)
    from Cons.IH[OF this ok1] show ?thesis by auto
  qed
qed

lemma severity_range_pos:
  "0 < fst (severity_range (failure_profiles n))
   \<and> fst (severity_range (failure_profiles n)) \<le> snd (severity_range (failure_profiles n))"
  by (cases n) simp_all

lemma create_failure_scenario_props:
  assumes "create_failure_scenario n now r = (f, r')" "rng_ok r"
  shows "rng_ok r' \<and> fs_node_id f = n \<and> fs_start_time f = now \<and> 5 \<le> fs_duration f
         \<and> fs_duration f \<le> 600 \<and> 0 < fs_severity f"
proof -
  let ?lo = "fst (severity_range (failure_profiles n))"
  let ?hi = "snd (severity_range (failure_profiles n))"
  have u: "0 \<le> shd (stl r)" using rng_ok_shd[OF rng_ok_stl[OF assms(2)]] by simp
  have "0 \<le> (?hi - ?lo) * shd (stl r)" using severity_range_pos[of n] u by simp
  then have sev: "0 < ?lo + (?hi - ?lo) * shd (stl r)" using severity_range_pos[of n] by linarith
  have ok: "rng_ok (stl (stl r))" using assms(2) by (simp add: rng_ok_stl)
  from assms(1) sev ok show ?thesis
    by (auto simp: create_failure_scenario_def py_expovariate_def py_uniform_def Let_def)
qed

lemma inject_nodes_props:
  assumes "inject_nodes ns now st fi r = (fs, fi', r')" "rng_ok r"
  shows "rng_ok r' \<and> (\<forall>f \<in> set fs. fs_start_time f = now \<and> 5 \<le> fs_duration f
           \<and> 0 < fs_severity f)"
  using assms
proof (induction ns arbitrary: fs fi r fi' r')
  case Nil
  then show ?case by simp
next
  case (Cons n ns)
  show ?case
  proof (cases "n \<in> failed_nodes st")
    case True
    then have "inject_nodes ns now st fi r = (fs, fi', r')" using Cons.prems(1) by simp
    from Cons.IH[OF this Cons.prems(2)] show ?thesis .
  next
    case False
    obtain b r1 where s: "should_inject_failure fi n now st r = (b, r1)" by (metis surj_pair)
    then have r1: "r1 = stl r" by (auto simp: should_inject_failure_def py_random_def Let_def)
    have ok1: "rng_ok r1" unfolding r1 by (rule rng_ok_stl[OF Cons.prems(2)])
    show ?thesis
    proof (cases b)
      case True
      obtain f r2 where c: "create_failure_scenario n now r1 = (f, r2)" by (metis surj_pair)
      obtain rest fi2 r3 where rec: "inject_nodes ns now st
          (fi\<lparr>failure_history := failure_history fi @ [f],
              last_failure_times := (last_failure_times fi)(n \<mapsto> now)\<rparr>) r2 = (rest, fi2, r3)"
        by (metis prod_cases3)
      from Cons.prems(1) False s True c rec have fs: "fs = f # rest" and r': "r' = r3"
        by (simp_all add: Let_def)
      from create_failure_scenario_props[OF c ok1] Cons.IH[OF rec]
      show ?thesis unfolding fs r' by auto
    next
      case F: False
      then have "inject_nodes ns now st fi r1 = (fs, fi', r')"
        using Cons.prems(1) False s by (simp add: Let_def)
      from Cons.IH[OF this ok1] show ?thesis .
    qed
  qed
qed

lemma not_own_dependent: "n \<notin> set (get_dependent_nodes n)"
  by (cases n) simp_all

lemma dependency_table:
  "d \<in> set (get_dependent_nodes n) \<Longrightarrow>
     (n \<in> {CORE1, CORE2} \<and> d \<in> {EDGE1, EDGE2}) \<or> (n = CLOUD1 \<and> d \<in> {CORE1, CORE2})"
  by (cases n) auto

text \<open>
  Claim C7. With random draws in \<open>[0, 1)\<close>, every cascading failure that
  \<open>inject_failures\<close> creates (the result of \<open>_evaluate_cascading_failures\<close> on the
  failures just injected) has a trigger among those failures such that: its node is
  listed as a dependent of the trigger's node in the static table (an edge node for
  a core trigger, a core node for the cloud trigger, and no trigger is an edge node);
  its node is not the trigger's node; its start is 5 to 30 seconds after the
  trigger's start; its severity is 0.6 times and strictly below the trigger's; its
  duration is 0.7 times and strictly below the trigger's.
\<close>

theorem cascading_failures_bounded:
  assumes "rng_ok r"
    and "c \<in> set (fst (evaluate_cascading_failures (fst (inject_nodes all_nodes now st fi r))
                      now st (snd (snd (inject_nodes all_nodes now st fi r)))))"
  shows "\<exists>trigger \<in> set (fst (inject_nodes all_nodes now st fi r)).
           fs_node_id c \<in> set (get_dependent_nodes (fs_node_id trigger))
         \<and> ((fs_node_id trigger \<in> {CORE1, CORE2} \<and> fs_node_id c \<in> {EDGE1, EDGE2})
              \<or> (fs_node_id trigger = CLOUD1 \<and> fs_node_id c \<in> {CORE1, CORE2}))
         \<and> fs_node_id c \<noteq> fs_node_id trigger
         \<and> fs_start_time trigger + 5 \<le> fs_start_time c
         \<and> fs_start_time c \<le> fs_start_time trigger + 30
         \<and> fs_severity c = fs_severity trigger * (6 / 10)
         \<and> fs_severity c < fs_severity trigger
         \<and> fs_duration c = fs_duration trigger * (7 / 10)
         \<and> fs_duration c < fs_duration trigger"
proof -
  obtain initial fi1 r1 where i: "inject_nodes all_nodes now st fi r = (initial, fi1, r1)"
    by (metis prod_cases3)
  obtain cs r2 where e: "cascade_triggers initial initial now st r1 = (cs, r2)"
    by (metis surj_pair)
  from inject_nodes_props[OF i assms(1)] have ok1: "rng_ok r1"
    and init: "\<forall>f \<in> set initial. fs_start_time f = now \<and> 5 \<le> fs_duration f
                 \<and> 0 < fs_severity f" by simp_all
  from assms(2) i e have "c \<in> set cs" by (simp add: evaluate_cascading_failures_def)
  with cascade_triggers_props[OF e ok1] obtain t where t: "t \<in> set initial"
    and dep: "fs_node_id c \<in> set (get_dependent_nodes (fs_node_id t))"
    and st: "now + 5 \<le> fs_start_time c" "fs_start_time c < now + 30"
    and du: "fs_duration c = fs_duration t * (7 / 10)"
    and se: "fs_severity c = fs_severity t * (6 / 10)" by blast
  from init t have tp: "fs_start_time t = now" "5 \<le> fs_duration t" "0 < fs_severity t"
    by simp_all
  have ne: "fs_node_id c \<noteq> fs_node_id t" using dep not_own_dependent by metis
  have "fs_severity c < fs_severity t" using se tp(3) by simp
  moreover have "fs_duration c < fs_duration t" using du tp(2) by simp
  ultimately show ?thesis
    using t dep dependency_table[OF dep] ne st du se tp(1) i
    by (intro bexI[of _ t]) auto
qed

lemma core1_failure_draws_ok: "rng_ok core1_failure_draws"
  by (simp add: rng_ok_def core1_failure_draws_def)

lemma core1_injected:
  "inject_nodes all_nodes 1000 (initial_state default_node_baseline_metrics 0)
     new_failure_injector core1_failure_draws
   = ([\<lparr>fs_node_id = CORE1, fs_failure_type = BYZANTINE, fs_start_time = 1000,
         fs_duration = 5, fs_severity = 9 / 10, fs_recovery_time = None\<rparr>],
      new_failure_injector\<lparr>failure_history :=
         [\<lparr>fs_node_id = CORE1, fs_failure_type = BYZANTINE, fs_start_time = 1000,
           fs_duration = 5, fs_severity = 9 / 10, fs_recovery_time = None\<rparr>],
         last_failure_times := [CORE1 \<mapsto> 1000]\<rparr>,
      sconst 0)"
  by (simp add: core1_failure_draws_def all_nodes_def initial_state_def
        default_node_baseline_metrics_def new_failure_injector_def should_inject_failure_def
        calculate_load_factor_def py_random_def create_failure_scenario_def
        py_expovariate_def py_uniform_def Let_def)

lemma core1_cascades:
  "fst (evaluate_cascading_failures
     [\<lparr>fs_node_id = CORE1, fs_failure_type = BYZANTINE, fs_start_time = 1000,
         fs_duration = 5, fs_severity = 9 / 10, fs_recovery_time = None\<rparr>]
     1000 (initial_state default_node_baseline_metrics 0) (sconst 0))
   = [\<lparr>fs_node_id = EDGE1, fs_failure_type = CRASH, fs_start_time = 1005,
         fs_duration = 35 / 10, fs_severity = 54 / 100, fs_recovery_time = None\<rparr>,
      \<lparr>fs_node_id = EDGE2, fs_failure_type = OMISSION, fs_start_time = 1005,
         fs_duration = 35 / 10, fs_severity = 54 / 100, fs_recovery_time = None\<rparr>]"
  by (simp add: evaluate_cascading_failures_def py_random_def py_uniform_def
        cascading_failure_probability_def initial_state_def Let_def)

text \<open>
  CORE1 fails at time 1000 for 5 seconds with severity 0.9; the cascade on EDGE1
  starts at 1005, lasts 3.5 seconds and has severity 0.54.
\<close>

theorem cascading_failures_bounded_witness:
  "\<exists>trigger \<in> set (fst (inject_nodes all_nodes 1000
        (initial_state default_node_baseline_metrics 0) new_failure_injector
        core1_failure_draws)).
      fs_node_id trigger = CORE1
      \<and> fs_start_time trigger + 5 \<le> (1005::real)
      \<and> (54 / 100 :: real) < fs_severity trigger
      \<and> (35 / 10 :: real) < fs_duration trigger"
  using cascading_failures_bounded[OF core1_failure_draws_ok,
      of "\<lparr>fs_node_id = EDGE1, fs_failure_type = CRASH, fs_start_time = 1005,
         fs_duration = 35 / 10, fs_severity = 54 / 100, fs_recovery_time = None\<rparr>"
      1000 "initial_state default_node_baseline_metrics 0" new_failure_injector]
  by (simp add: core1_injected core1_cascades)

subsection \<open>Resource-aware admission\<close>








lemmas adm_defs = heavy_request_def plain_env_def demo_config_def
  new_simulation_def initialize_node_weights_def default_node_baseline_metrics_def
  all_nodes_def initial_state_def process_service_request_def select_node_for_request_def
  iter_set_def select_node_resource_aware_def can_accommodate_request_def
  calculate_node_score_def find_least_loaded_node_def simulate_network_delay_def
  update_node_load_def Let_def

lemma loaded_sim_reached:
  "process_requests eight_heavy_requests (projr (new_simulation demo_config 100)) = loaded_sim"
  by (simp add: adm_defs eight_heavy_requests_def loaded_sim_def fun_eq_iff)
     (metis NodeId.exhaust)




subsection \<open>Replication groups\<close>

lemma py_randbelow_less:
  assumes "0 < n"
  shows "fst (py_randbelow n r) < n"
proof -
  have "min (n - 1) (nat \<lfloor>shd r * real n\<rfloor>) \<le> n - 1" by (rule min.cobounded1)
  then show ?thesis using assms by (simp add: py_randbelow_def)
qed

lemma py_sample_props:
  assumes "py_sample pool k r = (xs, r')" "distinct pool" "k \<le> length pool"
  shows "set xs \<subseteq> set pool \<and> distinct xs \<and> length xs = k"
  using assms
proof (induction k arbitrary: pool r xs r')
  case 0
  then show ?case by simp
next
  case (Suc k)
  then have ne: "pool \<noteq> []" by auto
  obtain j r1 where j: "py_randbelow (length pool) r = (j, r1)" by (metis surj_pair)
  have jl: "j < length pool" using py_randbelow_less[of "length pool" r] j ne by simp
  let ?rest = "take j pool @ drop (Suc j) pool"
  obtain ys r2 where rec: "py_sample ?rest k r1 = (ys, r2)" by (metis surj_pair)
  from Suc.prems(1) ne j rec have xs: "xs = pool ! j # ys" by (simp add: Let_def)
  have pool: "pool = take j pool @ pool ! j # drop (Suc j) pool"
    using jl by (simp add: id_take_nth_drop)
  have d: "distinct (take j pool @ pool ! j # drop (Suc j) pool)"
    by (subst pool[symmetric]) (rule Suc.prems(2))
  have dr: "distinct ?rest" and notin: "pool ! j \<notin> set ?rest"
    using d by auto
  have sub: "set ?rest \<subseteq> set pool"
    using set_take_subset[of j pool] set_drop_subset[of "Suc j" pool] by auto
  have len: "k \<le> length ?rest" using Suc.prems(3) jl by simp
  from Suc.IH[OF rec dr len] have "set ys \<subseteq> set ?rest" "distinct ys" "length ys = k"
    by simp_all
  then show ?case using xs notin sub jl by auto
qed

lemma distinct_all_nodes: "distinct all_nodes"
  by (simp add: all_nodes_def)

lemma length_all_nodes: "length all_nodes = 5"
  by (simp add: all_nodes_def)

lemma others_length: "length (filter (\<lambda>node. node \<noteq> p) all_nodes) = 4"
  by (cases p) (simp_all add: all_nodes_def)

lemma select_replica_nodes_props:
  assumes "select_replica_nodes p ft count r = (S, r')"
  shows "p \<notin> S \<and> (count \<le> 4 \<longrightarrow> card S = count)"
proof -
  define c where "c = filter (\<lambda>node. node \<noteq> p \<and> node_failure_types node \<noteq> ft) all_nodes"
  define e where "e = filter (\<lambda>node. node \<noteq> p \<and> node \<notin> set c) all_nodes"
  define c' where "c' = (if length c < count then c @ e else c)"
  obtain xs r1 where sm: "py_sample c' (min count (length c')) r = (xs, r1)"
    by (cases "py_sample c' (min count (length c')) r") blast
  have "select_replica_nodes p ft count r = (set xs, r1)"
    unfolding select_replica_nodes_def Let_def c_def[symmetric] e_def[symmetric]
      c'_def[symmetric] sm by simp
  then have S: "S = set xs" using assms by simp
  have dc: "distinct c" unfolding c_def using distinct_all_nodes by simp
  have de: "distinct e" unfolding e_def using distinct_all_nodes by simp
  have dj: "set c \<inter> set e = {}" unfolding e_def by auto
  have d: "distinct c'" unfolding c'_def using dc de dj by simp
  have "p \<notin> set c" "p \<notin> set e" unfolding c_def e_def by simp_all
  then have np: "p \<notin> set c'" unfolding c'_def by simp
  have e2: "e = filter (\<lambda>node. \<not> node_failure_types node \<noteq> ft)
                  (filter (\<lambda>node. node \<noteq> p) all_nodes)"
    unfolding e_def c_def by (auto intro: filter_cong simp: conj_commute)
  have c2: "c = filter (\<lambda>node. node_failure_types node \<noteq> ft)
                  (filter (\<lambda>node. node \<noteq> p) all_nodes)"
    unfolding c_def by (auto intro: filter_cong simp: conj_commute)
  have "length c + length e = length (filter (\<lambda>node. node \<noteq> p) all_nodes)"
    unfolding c2 e2 by (rule sum_length_filter_compl)
  then have l4: "length (c @ e) = 4" by (simp add: others_length)
  have len: "count \<le> 4 \<Longrightarrow> count \<le> length c'"
    unfolding c'_def using l4 by (cases "length c < count") simp_all
  from py_sample_props[OF sm d] have x: "set xs \<subseteq> set c'" "distinct xs"
    "length xs = min count (length c')" by simp_all
  have "count \<le> 4 \<Longrightarrow> card (set xs) = count"
    using x(2,3) len by (simp add: distinct_card)
  then show ?thesis using S x(1) np by blast
qed

lemma dict_set_entries: "set (dict_set d k v) \<subseteq> insert (k, v) (set d)"
  by (induction d k v rule: dict_set.induct) auto

lemma dict_set_has: "(k, v) \<in> set (dict_set d k v)"
  by (induction d k v rule: dict_set.induct) auto

lemma map_of_dict_set: "map_of (dict_set d k v) k = Some v"
  by (induction d k v rule: dict_set.induct) auto

lemma create_replication_group_props:
  assumes "create_replication_group_for_node mgr risk strategy r = (mgr', r')"
  shows "\<exists>grp. map_of (replication_groups mgr') (''replication_group_'' @ node_value (ra_node_id risk))
                 = Some grp
           \<and> set (replication_groups mgr')
               \<subseteq> insert (''replication_group_'' @ node_value (ra_node_id risk), grp)
                   (set (replication_groups mgr))
           \<and> primary_node grp = ra_node_id risk
           \<and> primary_node grp \<notin> replica_nodes grp
           \<and> (risk_score risk \<ge> 85 / 100 \<longrightarrow>
                 replication_factor grp = 3 \<and> card (replica_nodes grp) = 3)
           \<and> (70 / 100 \<le> risk_score risk \<and> risk_score risk < 85 / 100 \<longrightarrow>
                 replication_factor grp = 2 \<and> card (replica_nodes grp) = 2)"
proof -
  define f :: nat where "f = (if risk_score risk \<ge> critical_risk_threshold then 3
            else if risk_score risk \<ge> high_risk_threshold then 2 else 1)"
  define gid where "gid = ''replication_group_'' @ node_value (ra_node_id risk)"
  obtain S r1 where s: "select_replica_nodes (ra_node_id risk) (ra_failure_type risk) f r = (S, r1)"
    by (cases "select_replica_nodes (ra_node_id risk) (ra_failure_type risk) f r") blast
  have f4: "f \<le> 4" by (simp add: f_def)
  from select_replica_nodes_props[OF s] f4
  have p: "ra_node_id risk \<notin> S" "card S = f" by auto
  define grp where "grp = \<lparr>group_id = gid, primary_node = ra_node_id risk, replica_nodes = S,
             rg_strategy = strategy, replication_factor = f,
             consistency_level = (if ra_failure_type risk = BYZANTINE then ''strong''
               else if ra_failure_type risk = OMISSION then ''causal'' else ''eventual'')\<rparr>"
  have e: "create_replication_group_for_node mgr risk strategy r
      = (mgr\<lparr>replication_groups := dict_set (replication_groups mgr) gid grp\<rparr>, r1)"
    unfolding create_replication_group_for_node_def Let_def f_def[symmetric] gid_def[symmetric] s
    by (simp add: grp_def)
  have "mgr' = mgr\<lparr>replication_groups := dict_set (replication_groups mgr) gid grp\<rparr>"
    using assms e by simp
  then have m: "replication_groups mgr' = dict_set (replication_groups mgr) gid grp"
    by simp
  have g: "primary_node grp = ra_node_id risk" "replica_nodes grp = S"
    "replication_factor grp = f" by (simp_all add: grp_def)
  have f3: "risk_score risk \<ge> 85 / 100 \<Longrightarrow> f = 3"
    by (simp add: f_def critical_risk_threshold_def)
  have f2: "70 / 100 \<le> risk_score risk \<and> risk_score risk < 85 / 100 \<Longrightarrow> f = 2"
    by (simp add: f_def critical_risk_threshold_def high_risk_threshold_def)
  have "map_of (replication_groups mgr') gid = Some grp
      \<and> set (replication_groups mgr') \<subseteq> insert (gid, grp) (set (replication_groups mgr))
      \<and> primary_node grp = ra_node_id risk
      \<and> primary_node grp \<notin> replica_nodes grp
      \<and> (risk_score risk \<ge> 85 / 100 \<longrightarrow>
                 replication_factor grp = 3 \<and> card (replica_nodes grp) = 3)
      \<and> (70 / 100 \<le> risk_score risk \<and> risk_score risk < 85 / 100 \<longrightarrow>
                 replication_factor grp = 2 \<and> card (replica_nodes grp) = 2)"
    unfolding m g using p f3 f2 dict_set_entries[of "replication_groups mgr" gid grp]
      map_of_dict_set[of "replication_groups mgr" gid grp]
    by (simp only:) simp
  then show ?thesis unfolding gid_def by (rule exI)
qed

lemma create_replication_group_inv:
  assumes "create_replication_group_for_node mgr risk strategy r = (mgr', r')"
    and "groups_exclude_primary mgr"
  shows "groups_exclude_primary mgr'"
proof -
  from create_replication_group_props[OF assms(1)] obtain grp where
    sub: "set (replication_groups mgr')
               \<subseteq> insert (''replication_group_'' @ node_value (ra_node_id risk), grp)
                   (set (replication_groups mgr))"
    and np: "primary_node grp \<notin> replica_nodes grp" by blast
  show ?thesis
    unfolding groups_exclude_primary_def
  proof (intro ballI, clarify)
    fix k g assume "(k, g) \<in> set (replication_groups mgr')"
    then have "g = grp \<or> (k, g) \<in> set (replication_groups mgr)" using sub by auto
    then show "primary_node g \<in> replica_nodes g \<Longrightarrow> False"
      using np assms(2) unfolding groups_exclude_primary_def by auto
  qed
qed

lemma configure_inv:
  assumes "configure_redundancy_from_risk_assessment mgr risks r = (config, mgr', r')"
    and "groups_exclude_primary mgr"
  shows "groups_exclude_primary mgr'"
  using assms
proof (induction risks arbitrary: mgr r config mgr' r')
  case Nil
  then show ?case by simp
next
  case (Cons risk risks)
  obtain mgr1 r1 where c: "(if risk_score risk \<ge> high_risk_threshold
             then create_replication_group_for_node mgr risk (select_redundancy_strategy risk) r
             else (mgr, r)) = (mgr1, r1)" by (metis surj_pair)
  have i1: "groups_exclude_primary mgr1"
    using c Cons.prems(2) create_replication_group_inv by (auto split: if_splits)
  obtain config2 mgr2 r2 where rec:
    "configure_redundancy_from_risk_assessment mgr1 risks r1 = (config2, mgr2, r2)"
    by (metis prod_cases3)
  from Cons.prems(1) c rec have "mgr' = mgr2" by (simp add: Let_def)
  with Cons.IH[OF rec i1] show ?case by simp
qed

lemma failover_target_loop_mem:
  "failover_target_loop rs st best = Some n \<Longrightarrow> n \<in> set rs \<or> (\<exists>sc. best = Some (sc, n))"
  by (induction rs arbitrary: best) (auto simp: Let_def split: if_splits)

lemma select_failover_target_mem:
  assumes "select_failover_target failed grp st ord = Some n"
  shows "n \<in> replica_nodes grp \<and> n \<notin> failed_nodes st"
proof -
  let ?av = "filter (\<lambda>node. node \<notin> failed_nodes st) (iter_set ord (replica_nodes grp))"
  from assms have "failover_target_loop ?av st None = Some n"
    by (simp add: select_failover_target_def Let_def split: if_splits)
  from failover_target_loop_mem[OF this] have "n \<in> set ?av" by simp
  then show ?thesis by (simp add: iter_set_def)
qed

lemma mutate_found_group_entries:
  assumes "find (group_has_node n) (map snd gs) = Some grp"
  shows "\<exists>k. set (mutate_found_group n f gs) \<subseteq> insert (k, f grp) (set gs)"
  using assms
proof (induction gs)
  case Nil
  then show ?case by simp
next
  case (Cons a gs)
  obtain k g where a: "a = (k, g)" by (cases a)
  show ?case
  proof (cases "group_has_node n g")
    case True
    then have "g = grp" using Cons.prems a by simp
    then show ?thesis using True a by (intro exI[of _ k]) auto
  next
    case False
    then have "find (group_has_node n) (map snd gs) = Some grp" using Cons.prems a by simp
    from Cons.IH[OF this] obtain k' where
      "set (mutate_found_group n f gs) \<subseteq> insert (k', f grp) (set gs)" by blast
    then show ?thesis using False a by (intro exI[of _ k']) auto
  qed
qed

lemma update_after_failover_inv:
  assumes "primary_node grp \<notin> replica_nodes grp" "target \<in> replica_nodes grp"
  shows "primary_node (update_replication_group_after_failover grp failed target)
           \<notin> replica_nodes (update_replication_group_after_failover grp failed target)"
  using assms by (auto simp: update_replication_group_after_failover_def)

lemma find_in_groups:
  "find P (map snd gs) = Some grp \<Longrightarrow> \<exists>k. (k, grp) \<in> set gs"
  by (induction gs) (auto split: if_splits)

lemma implement_failover_result:
  assumes "find_replication_group_for_node mgr failed = Some grp"
    and "select_failover_target failed grp st ord = Some target"
  shows "\<exists>e. implement_automated_failover mgr failed st mode now ord r
           = (Some e,
              mgr\<lparr>replication_groups :=
                    (if fe_success e
                     then mutate_found_group failed
                            (\<lambda>g. update_replication_group_after_failover g failed target)
                            (replication_groups mgr)
                     else replication_groups mgr),
                  failover_history := failover_history mgr @ [e]\<rparr>,
              snd (migrate_services_during_failover failed target st),
              snd (snd (execute_failover grp r)))
         \<and> fe_failed_node e = failed \<and> fe_failover_node e = target
         \<and> fe_success e = fst (execute_failover grp r)
         \<and> services_migrated e = fst (migrate_services_during_failover failed target st)"
proof -
  obtain success downtime r1 where x: "execute_failover grp r = (success, downtime, r1)"
    by (metis prod_cases3)
  obtain migrated st1 where m: "migrate_services_during_failover failed target st = (migrated, st1)"
    by (metis surj_pair)
  show ?thesis
    by (rule exI[of _ "\<lparr>fe_event_id =
                        ''failover_'' @ node_value failed @ ''_'' @ py_str_int (py_int now),
                      fe_failed_node = failed,
                      fe_failover_node = target,
                      fe_failover_mode = mode,
                      fe_start_time = now,
                      fe_completion_time = Some (now + downtime),
                      fe_success = success,
                      services_migrated = migrated,
                      downtime_seconds = downtime,
                      fe_reason = ''Node '' @ node_value failed @ '' failure detected''\<rparr>"])
       (simp add: implement_automated_failover_def assms x m Let_def)
qed

lemma failover_inv:
  assumes "implement_automated_failover mgr failed st mode now ord r = (ev, mgr', st', r')"
    and "groups_exclude_primary mgr"
  shows "groups_exclude_primary mgr'"
proof (cases "find_replication_group_for_node mgr failed")
  case None
  then have "mgr' = mgr" using assms(1) by (simp add: implement_automated_failover_def)
  then show ?thesis using assms(2) by simp
next
  case (Some grp)
  note grp = this
  show ?thesis
  proof (cases "select_failover_target failed grp st ord")
    case None
    then have "mgr' = mgr" using assms(1) grp by (simp add: implement_automated_failover_def)
    then show ?thesis using assms(2) by simp
  next
    case (Some target)
    obtain k where k: "(k, grp) \<in> set (replication_groups mgr)"
      using find_in_groups grp unfolding find_replication_group_for_node_def by metis
    then have gi: "primary_node grp \<notin> replica_nodes grp"
      using assms(2) by (auto simp: groups_exclude_primary_def)
    have ti: "target \<in> replica_nodes grp" using select_failover_target_mem[OF Some] by simp
    define g' where "g' = update_replication_group_after_failover grp failed target"
    define gs' where "gs' = mutate_found_group failed
        (\<lambda>g. update_replication_group_after_failover g failed target) (replication_groups mgr)"
    obtain k' where sub: "set gs' \<subseteq> insert (k', g') (set (replication_groups mgr))"
      using mutate_found_group_entries[OF grp[unfolded find_replication_group_for_node_def]]
      unfolding gs'_def g'_def by blast
    have g'i: "primary_node g' \<notin> replica_nodes g'"
      unfolding g'_def by (rule update_after_failover_inv[OF gi ti])
    from implement_failover_result[OF grp Some, of mode now r] obtain e where
      e: "implement_automated_failover mgr failed st mode now ord r
           = (Some e,
              mgr\<lparr>replication_groups := (if fe_success e then gs' else replication_groups mgr),
                  failover_history := failover_history mgr @ [e]\<rparr>,
              snd (migrate_services_during_failover failed target st),
              snd (snd (execute_failover grp r)))"
      unfolding gs'_def by blast
    have "mgr' = mgr\<lparr>replication_groups := (if fe_success e then gs' else replication_groups mgr),
                  failover_history := failover_history mgr @ [e]\<rparr>"
      using assms(1) unfolding e by simp
    then have m: "replication_groups mgr' = (if fe_success e then gs' else replication_groups mgr)"
      by simp
    show ?thesis
    proof (cases "fe_success e")
      case False
      then show ?thesis using m assms(2) by (simp add: groups_exclude_primary_def)
    next
      case True
      then have m': "replication_groups mgr' = gs'" using m by simp
      show ?thesis
        unfolding groups_exclude_primary_def m'
      proof (intro ballI, clarify)
        fix k g assume "(k, g) \<in> set gs'" "primary_node g \<in> replica_nodes g"
        then have "g = g' \<or> (k, g) \<in> set (replication_groups mgr)" using sub by auto
        then show False
          using g'i assms(2) \<open>primary_node g \<in> replica_nodes g\<close>
          unfolding groups_exclude_primary_def by auto
      qed
    qed
  qed
qed

lemma groups_exclude_primary_new: "groups_exclude_primary new_redundancy_manager"
  by (simp add: groups_exclude_primary_def new_redundancy_manager_def)

text \<open>
  Claim C8. The group that \<open>_create_replication_group_for_node\<close> stores for a node
  has that node as primary and not among its replicas, and for a risk score of 0.85 or
  more it has replication factor 3 and three replicas. No group of a new manager has
  its primary among its replicas, and creating a group, configuring from a list of risk
  assessments and an automated failover (with its promotion of the failover node, when
  it succeeds) keep it so.
\<close>

theorem replica_sets_exclude_primary:
  "(\<exists>grp. map_of (replication_groups (fst (create_replication_group_for_node mgr risk strategy r)))
             (''replication_group_'' @ node_value (ra_node_id risk)) = Some grp
          \<and> primary_node grp = ra_node_id risk
          \<and> primary_node grp \<notin> replica_nodes grp
          \<and> (85 / 100 \<le> risk_score risk \<longrightarrow>
                2 \<le> replication_factor grp \<and> replication_factor grp = 3
                \<and> 2 \<le> card (replica_nodes grp) \<and> card (replica_nodes grp) = 3))
   \<and> groups_exclude_primary new_redundancy_manager
   \<and> (groups_exclude_primary mgr \<longrightarrow>
         groups_exclude_primary (fst (create_replication_group_for_node mgr risk strategy r))
       \<and> groups_exclude_primary
            (fst (snd (configure_redundancy_from_risk_assessment mgr risks r)))
       \<and> groups_exclude_primary
            (fst (snd (implement_automated_failover mgr failed_node st mode now ord r))))"
proof -
  obtain m1 r1 where c: "create_replication_group_for_node mgr risk strategy r = (m1, r1)"
    by (cases "create_replication_group_for_node mgr risk strategy r") blast
  obtain cf m2 r2 where g: "configure_redundancy_from_risk_assessment mgr risks r = (cf, m2, r2)"
    by (cases "configure_redundancy_from_risk_assessment mgr risks r") auto
  obtain ev m3 st3 r3 where
    f: "implement_automated_failover mgr failed_node st mode now ord r = (ev, m3, st3, r3)"
    by (cases "implement_automated_failover mgr failed_node st mode now ord r") auto
  from create_replication_group_props[OF c] obtain grp where
    grp: "map_of (replication_groups m1) (''replication_group_'' @ node_value (ra_node_id risk))
            = Some grp"
      "primary_node grp = ra_node_id risk" "primary_node grp \<notin> replica_nodes grp"
      "risk_score risk \<ge> 85 / 100 \<longrightarrow>
         replication_factor grp = 3 \<and> card (replica_nodes grp) = 3"
    by blast
  have first: "\<exists>grp. map_of (replication_groups m1)
             (''replication_group_'' @ node_value (ra_node_id risk)) = Some grp
          \<and> primary_node grp = ra_node_id risk
          \<and> primary_node grp \<notin> replica_nodes grp
          \<and> (85 / 100 \<le> risk_score risk \<longrightarrow>
                2 \<le> replication_factor grp \<and> replication_factor grp = 3
                \<and> 2 \<le> card (replica_nodes grp) \<and> card (replica_nodes grp) = 3)"
    using grp by (intro exI[of _ grp]) simp
  have inv: "groups_exclude_primary mgr \<longrightarrow>
      groups_exclude_primary m1 \<and> groups_exclude_primary m2 \<and> groups_exclude_primary m3"
    using create_replication_group_inv[OF c] configure_inv[OF g] failover_inv[OF f] by blast
  show ?thesis
    unfolding c g f fst_conv snd_conv using first inv groups_exclude_primary_new by blast
qed

lemma py_randbelow_first: "py_randbelow n (sconst 0) = (0, sconst 0)"
  by (simp add: py_randbelow_def)

lemma core1_replicas:
  "select_replica_nodes CORE1 BYZANTINE 3 (sconst 0) = ({EDGE1, EDGE2, CORE2}, sconst 0)"
  by (simp add: select_replica_nodes_def all_nodes_def numeral_3_eq_3 py_randbelow_first Let_def)

lemma core1_group_manager_groups:
  "replication_groups core1_group_manager
     = [(''replication_group_CORE1'',
         \<lparr>group_id = ''replication_group_CORE1'', primary_node = CORE1,
          replica_nodes = {EDGE1, EDGE2, CORE2}, rg_strategy = N_WAY_REPLICATION,
          replication_factor = 3, consistency_level = ''strong''\<rparr>)]"
  by (simp add: core1_group_manager_def create_replication_group_for_node_def core1_risk_def
        core1_replicas select_redundancy_strategy_def
        critical_risk_threshold_def high_risk_threshold_def new_redundancy_manager_def Let_def)


lemma core1_group_found:
  "find_replication_group_for_node core1_group_manager CORE1
     = Some \<lparr>group_id = ''replication_group_CORE1'', primary_node = CORE1,
          replica_nodes = {EDGE1, EDGE2, CORE2}, rg_strategy = N_WAY_REPLICATION,
          replication_factor = 3, consistency_level = ''strong''\<rparr>"
  by (simp add: find_replication_group_for_node_def core1_group_manager_groups
        group_has_node_def)

lemma core1_failover_target:
  "select_failover_target CORE1
     \<lparr>group_id = ''replication_group_CORE1'', primary_node = CORE1,
          replica_nodes = {EDGE1, EDGE2, CORE2}, rg_strategy = N_WAY_REPLICATION,
          replication_factor = 3, consistency_level = ''strong''\<rparr>
     core1_failed_state all_nodes = Some EDGE2"
  by (simp add: select_failover_target_def iter_set_def all_nodes_def core1_failed_state_def
        initial_state_def default_node_baseline_metrics_def calculate_failover_target_score_def
        Let_def)


lemma core1_failover_groups:
  "replication_groups (fst (snd (implement_automated_failover core1_group_manager CORE1
       core1_failed_state AUTOMATIC 100 all_nodes (sconst 0))))
     = [(''replication_group_CORE1'',
         \<lparr>group_id = ''replication_group_CORE1'', primary_node = EDGE2,
          replica_nodes = {CORE1, EDGE1, CORE2}, rg_strategy = N_WAY_REPLICATION,
          replication_factor = 3, consistency_level = ''strong''\<rparr>)]"
  by (simp add: implement_automated_failover_def core1_group_found core1_failover_target
        execute_failover_def py_uniform_def py_random_def migrate_services_during_failover_def
        core1_group_manager_groups group_has_node_def
        update_replication_group_after_failover_def insert_Diff_if Let_def)

text \<open>
  The group created for CORE1 has the replicas EDGE1, EDGE2 and CORE2 and factor 3;
  the failover of CORE1 promotes EDGE2, the replica with the best score, and CORE1
  takes its place among the replicas.
\<close>

theorem replica_sets_exclude_primary_witness:
  "map (primary_node \<circ> snd) (replication_groups core1_group_manager) = [CORE1]
   \<and> map (replica_nodes \<circ> snd) (replication_groups core1_group_manager)
        = [{EDGE1, EDGE2, CORE2}]
   \<and> map (replication_factor \<circ> snd) (replication_groups core1_group_manager) = [3]
   \<and> map (primary_node \<circ> snd)
        (replication_groups (fst (snd (implement_automated_failover core1_group_manager CORE1
           core1_failed_state AUTOMATIC 100 all_nodes (sconst 0))))) = [EDGE2]
   \<and> map (replica_nodes \<circ> snd)
        (replication_groups (fst (snd (implement_automated_failover core1_group_manager CORE1
           core1_failed_state AUTOMATIC 100 all_nodes (sconst 0))))) = [{CORE1, EDGE1, CORE2}]
   \<and> EDGE2 \<notin> {CORE1, EDGE1, CORE2}"
  using replica_sets_exclude_primary[of new_redundancy_manager core1_risk
          "select_redundancy_strategy core1_risk" "sconst 0" "[]" CORE1 core1_failed_state
          AUTOMATIC 100 all_nodes]
        replica_sets_exclude_primary[of core1_group_manager core1_risk
          "select_redundancy_strategy core1_risk" "sconst 0" "[]" CORE1 core1_failed_state
          AUTOMATIC 100 all_nodes]
  by (simp add: core1_group_manager_def[symmetric] core1_group_manager_groups
        core1_failover_groups groups_exclude_primary_def)


subsection \<open>Automated failover\<close>









end
